theory Spec2Isabelle
  imports Main
begin

section \<open>Vendor-bundle gatekeeper (TryBundleDllWebpackPlugin)\<close>

subsection \<open>Build-stats options\<close>

text \<open>
  A JavaScript object with boolean properties is a finite map from property names to
  booleans. \<open>webpackOutputOptions\<close> is a module-level object that
  \<open>getWebpackStatsConfig\<close> may mutate, so its current contents are the module state;
  \<open>verboseWebpackOutputOptions\<close> is only ever read.
\<close>

type_synonym js_object = "string \<rightharpoonup> bool"

definition webpackOutputOptions :: js_object where
  "webpackOutputOptions = map_of
     [(''colors'', True), (''hash'', True), (''timings'', True), (''chunks'', True),
      (''chunkModules'', False), (''children'', False), (''modules'', False),
      (''reasons'', False), (''warnings'', True), (''assets'', False),
      (''version'', False)]"

definition verboseWebpackOutputOptions :: js_object where
  "verboseWebpackOutputOptions = map_of
     [(''children'', True), (''assets'', True), (''version'', True),
      (''reasons'', True), (''chunkModules'', False)]"

text \<open>
  \<open>Object.assign(target, source)\<close> copies every own property of the source into the
  target object itself and returns the target.
\<close>

definition Object_assign :: "js_object \<Rightarrow> js_object \<Rightarrow> js_object" where
  "Object_assign target source = target ++ source"

text \<open>
  \<open>getWebpackStatsConfig verbose s\<close>: \<open>s\<close> is the contents of the module-level
  \<open>webpackOutputOptions\<close> object before the call. The result pairs the contents of the
  returned object (it is the module-level object in both branches) with the contents of
  the module-level object after the call.
\<close>

definition getWebpackStatsConfig :: "bool \<Rightarrow> js_object \<Rightarrow> js_object \<times> js_object" where
  "getWebpackStatsConfig verbose s =
     (if verbose
      then (let s' = Object_assign s verboseWebpackOutputOptions in (s', s'))
      else (s, s))"

text \<open>A sequence of calls, threading the module state; the returned objects in order.\<close>

fun getWebpackStatsConfig_calls :: "bool list \<Rightarrow> js_object \<Rightarrow> js_object list \<times> js_object" where
  "getWebpackStatsConfig_calls [] s = ([], s)"
| "getWebpackStatsConfig_calls (v # vs) s =
     (case getWebpackStatsConfig v s of
        (r, s') \<Rightarrow> (case getWebpackStatsConfig_calls vs s' of
                      (rs, s'') \<Rightarrow> (r # rs, s'')))"

subsection \<open>The pre-build hook\<close>

datatype js_error = JsError string

text \<open>
  A settled promise. A rejection carries its reason; \<open>reject()\<close> without an argument
  rejects with \<open>undefined\<close>, which is \<open>None\<close>.
\<close>

datatype 'a promise = Resolved 'a | Rejected "js_error option"

text \<open>What \<open>fs.stat\<close> hands its callback: an error, or stats with \<open>isFile()\<close>.\<close>

datatype stat_result = StatError js_error | Stats bool

text \<open>
  What the bundler does for a configuration: \<open>webpack(config)\<close> throws, or the compiler's
  \<open>run\<close> calls back with an error, or with stats whose \<open>hasErrors()\<close> is the boolean.
\<close>

datatype run_result = WebpackThrows js_error | RunError js_error | RunStats bool

record 'c world =
  fs_stat :: "string \<Rightarrow> stat_result"
  webpack_run :: "'c \<Rightarrow> run_result"

record 'c TryBundleDllPluginOptions =
  manifestFile :: string
  webpackDllConfig :: 'c
  debug :: "bool option"

text \<open>
  How the hook completes: \<open>next()\<close> with no argument, or \<open>next(err)\<close> where \<open>err\<close> is
  the rejection reason (possibly \<open>undefined\<close>).
\<close>

datatype completion = Next_no_argument | Next_with "js_error option"

text \<open>The error the completion callback receives; \<open>None\<close> is \<open>undefined\<close>.\<close>

fun received_error :: "completion \<Rightarrow> js_error option" where
  "received_error Next_no_argument = None"
| "received_error (Next_with e) = e"

text \<open>
  What a run of the hook does: how it completes, the configurations whose compiler was
  run, the stats options each printed report was made with, and the contents of the
  module-level options object afterwards.
\<close>

record 'c hook_outcome =
  next_call :: completion
  bundler_invocations :: "'c list"
  console_info :: "js_object list"
  module_state :: js_object

definition checkManifestFile :: "'c TryBundleDllPluginOptions \<Rightarrow> 'c world \<Rightarrow> bool promise" where
  "checkManifestFile options w =
     (case fs_stat w (manifestFile options) of
        StatError err \<Rightarrow> Rejected (Some err)
      | Stats isFile \<Rightarrow> Resolved isFile)"

text \<open>
  The handler of the first \<open>then\<close>, run when \<open>checkManifestFile\<close> resolved with
  \<open>exists\<close>: the promise it returns, the configurations the bundler was invoked with,
  what was printed, and the module state afterwards. An exception thrown by
  \<open>webpack(config)\<close> rejects the promise of the \<open>then\<close>.
\<close>

definition tryDll_then ::
  "'c TryBundleDllPluginOptions \<Rightarrow> 'c world \<Rightarrow> js_object \<Rightarrow> bool \<Rightarrow>
   unit promise \<times> 'c list \<times> js_object list \<times> js_object" where
  "tryDll_then options w s exists =
     (if exists then (Resolved (), [], [], s)
      else
        (case webpack_run w (webpackDllConfig options) of
           WebpackThrows e \<Rightarrow> (Rejected (Some e), [], [], s)
         | RunError err \<Rightarrow>
             (case getWebpackStatsConfig (case debug options of None \<Rightarrow> False | Some d \<Rightarrow> d) s of
                (statsConfig, s') \<Rightarrow> (Rejected (Some err), [webpackDllConfig options], [], s'))
         | RunStats hasErrors \<Rightarrow>
             (case getWebpackStatsConfig (case debug options of None \<Rightarrow> False | Some d \<Rightarrow> d) s of
                (statsConfig, s') \<Rightarrow>
                  ((if hasErrors then Rejected None else Resolved ()),
                   [webpackDllConfig options], [statsConfig], s'))))"

text \<open>
  \<open>tryDll\<close>: the chain \<open>checkManifestFile().then(...).then(() => next()).catch(err => next(err))\<close>.
  A rejection skips both \<open>then\<close> handlers and reaches the \<open>catch\<close>.
\<close>

definition tryDll ::
  "'c TryBundleDllPluginOptions \<Rightarrow> 'c world \<Rightarrow> js_object \<Rightarrow> 'c hook_outcome" where
  "tryDll options w s =
     (case checkManifestFile options w of
        Rejected err \<Rightarrow>
          \<lparr>next_call = Next_with err, bundler_invocations = [], console_info = [],
           module_state = s\<rparr>
      | Resolved exists \<Rightarrow>
          (case tryDll_then options w s exists of
             (Resolved u, runs, printed, s') \<Rightarrow>
               \<lparr>next_call = Next_no_argument, bundler_invocations = runs,
                console_info = printed, module_state = s'\<rparr>
           | (Rejected err, runs, printed, s') \<Rightarrow>
               \<lparr>next_call = Next_with err, bundler_invocations = runs,
                console_info = printed, module_state = s'\<rparr>))"

section \<open>Asset entry parser (parseAssetEntry)\<close>

datatype error =
    InvalidOptionError string
  | InvalidConfigError string
  | InternalError string
  | Error string
  | TypeError

text \<open>
  The parts of Node's \<open>path\<close> and \<open>fs\<close> modules the parser consults:
  \<open>path.isAbsolute\<close>, \<open>path.resolve\<close>, \<open>fs.existsSync\<close> and
  \<open>fs.statSync(...).isDirectory()\<close> (only ever asked of a path that exists).
\<close>

record node_env =
  path_isAbsolute :: "string \<Rightarrow> bool"
  path_resolve :: "string \<Rightarrow> string \<Rightarrow> string"
  fs_existsSync :: "string \<Rightarrow> bool"
  fs_isDirectory :: "string \<Rightarrow> bool"

record glob_descriptor =
  glob :: string
  dot :: "bool option"

datatype from_value = From_string string | From_glob glob_descriptor

text \<open>An object entry of the configuration; an absent or \<open>null\<close> property is \<open>None\<close>.\<close>

record AssetEntry =
  asset_from :: "from_value option"
  asset_to :: "string option"
  asset_context :: "string option"

record AssetParsedEntry =
  parsed_from :: from_value
  parsed_context :: "string option"
  parsed_to :: "string option"

text \<open>
  One element of the entries array: a string, an object (\<open>null\<close> is an object whose
  clone has \<open>from: null\<close>), or a value of any other type.
\<close>

datatype asset_item = Item_string string | Item_object AssetEntry | Item_other

datatype asset_entries =
    Entries_absent
  | Entries_string string
  | Entries_array "asset_item list"

text \<open>\<open>s.lastIndexOf(c)\<close>: the index of the last occurrence of \<open>c\<close>, or \<open>-1\<close>.\<close>

fun lastIndexOf_scan :: "string \<Rightarrow> char \<Rightarrow> int \<Rightarrow> int \<Rightarrow> int" where
  "lastIndexOf_scan [] c i found = found"
| "lastIndexOf_scan (x # xs) c i found =
     lastIndexOf_scan xs c (i + 1) (if x = c then i else found)"

definition lastIndexOf :: "string \<Rightarrow> char \<Rightarrow> int" where
  "lastIndexOf s c = lastIndexOf_scan s c 0 (- 1)"

text \<open>\<open>s.substr(0, n)\<close>; a negative length gives the empty string.\<close>

definition substr0 :: "string \<Rightarrow> int \<Rightarrow> string" where
  "substr0 s n = take (nat n) s"

definition prepareGlobFn :: "node_env \<Rightarrow> string \<Rightarrow> string \<Rightarrow> string" where
  "prepareGlobFn env baseDir p =
     (if p = [] then []
      else if lastIndexOf p (CHR ''*'') = - 1 \<and>
              \<not> path_isAbsolute env p \<and>
              fs_existsSync env (path_resolve env baseDir p) \<and>
              fs_isDirectory env (path_resolve env baseDir p)
      then (if lastIndexOf p (CHR ''/'') > - 1
            then substr0 p (int (length p) - 1)
            else p) @ ''/**/*''
      else p)"

text \<open>The callback of the final \<open>map\<close>; the \<open>throw\<close> is \<open>Inl\<close>.\<close>

fun parseAsset :: "node_env \<Rightarrow> string \<Rightarrow> asset_item \<Rightarrow> error + AssetParsedEntry" where
  "parseAsset env baseDir (Item_string asset) =
     (let fromGlob = prepareGlobFn env baseDir asset in
      if fromGlob = asset \<and> path_isAbsolute env fromGlob
      then Inr \<lparr>parsed_from = From_string asset, parsed_context = Some baseDir,
                parsed_to = None\<rparr>
      else Inr \<lparr>parsed_from = From_glob \<lparr>glob = fromGlob, dot = Some True\<rparr>,
                parsed_context = Some baseDir, parsed_to = None\<rparr>)"
| "parseAsset env baseDir (Item_object asset) =
     (case asset_from asset of
        None \<Rightarrow> Inl (Error ''Invalid 'assets' value in appConfig.'')
      | Some (From_glob g) \<Rightarrow>
          Inr \<lparr>parsed_from = From_glob g,
               parsed_context =
                 (if asset_context asset = None \<or> asset_context asset = Some []
                  then Some baseDir else asset_context asset),
               parsed_to = asset_to asset\<rparr>
      | Some (From_string from_str) \<Rightarrow>
          if from_str = [] then Inl (Error ''Invalid 'assets' value in appConfig.'')
          else
            (let fromGlob = prepareGlobFn env baseDir from_str in
             Inr \<lparr>parsed_from =
                    (if fromGlob = from_str \<and> path_isAbsolute env fromGlob
                     then From_string from_str
                     else From_glob \<lparr>glob = fromGlob, dot = Some True\<rparr>),
                  parsed_context =
                    (if asset_context asset = None \<or> asset_context asset = Some []
                     then Some baseDir else asset_context asset),
                  parsed_to = asset_to asset\<rparr>))"
| "parseAsset env baseDir Item_other = Inl (Error ''Invalid 'assets' value in appConfig.'')"

text \<open>\<open>Array.prototype.map\<close> with a callback that may throw: the first throw ends it.\<close>

fun map_throwing :: "('a \<Rightarrow> error + 'b) \<Rightarrow> 'a list \<Rightarrow> error + 'b list" where
  "map_throwing f [] = Inr []"
| "map_throwing f (x # xs) =
     (case f x of
        Inl e \<Rightarrow> Inl e
      | Inr y \<Rightarrow> (case map_throwing f xs of Inl e \<Rightarrow> Inl e | Inr ys \<Rightarrow> Inr (y # ys)))"

definition parseAssetEntry ::
  "node_env \<Rightarrow> string \<Rightarrow> asset_entries \<Rightarrow> error + AssetParsedEntry list" where
  "parseAssetEntry env baseDir assetEntries =
     (case assetEntries of
        Entries_absent \<Rightarrow> Inr []
      | Entries_string s \<Rightarrow>
          if s = [] then Inr [] else map_throwing (parseAsset env baseDir) [Item_string s]
      | Entries_array entries \<Rightarrow>
          if entries = [] then Inr [] else map_throwing (parseAsset env baseDir) entries)"

section \<open>Configuration assembly (getWebpackConfig)\<close>

subsection \<open>Filter names\<close>

text \<open>The \<open>filter\<close> option: \<open>string | string[]\<close>.\<close>

datatype filter_option = Filter_string string | Filter_array "string list"

text \<open>
  A \<open>char\<close> is a code unit below 256. Of the white space and line terminators that
  \<open>String.prototype.trim\<close> strips, those are U+0009 to U+000D, U+0020 and U+00A0; the
  others (U+1680, U+2000 to U+200A, U+2028, U+2029, U+202F, U+205F, U+3000, U+FEFF) are
  code units that a \<open>string\<close> here cannot hold.
\<close>

definition is_whitespace :: "char \<Rightarrow> bool" where
  "is_whitespace c =
     (c \<in> set [CHR 0x09, CHR 0x0A, CHR 0x0B, CHR 0x0C, CHR 0x0D, CHR 0x20, CHR 0xA0])"

text \<open>\<open>String.prototype.trim\<close>.\<close>

definition trim :: "string \<Rightarrow> string" where
  "trim s = rev (dropWhile is_whitespace (rev (dropWhile is_whitespace s)))"

definition prepareFilterNames :: "filter_option \<Rightarrow> string list" where
  "prepareFilterNames filter_opt =
     (case filter_opt of
        Filter_array names \<Rightarrow>
          fold (\<lambda>filterName filterNames.
                  if filterName \<noteq> [] \<and> trim filterName \<noteq> [] \<and>
                     trim filterName \<notin> set filterNames
                  then filterNames @ [trim filterName] else filterNames)
               names []
      | Filter_string s \<Rightarrow> if s \<noteq> [] \<and> trim s \<noteq> [] then [s] else [])"

text \<open>Truthiness of a \<open>filter\<close> value: an array is truthy, a string unless empty.\<close>

fun filter_truthy :: "filter_option \<Rightarrow> bool" where
  "filter_truthy (Filter_array names) = True"
| "filter_truthy (Filter_string s) = (s \<noteq> [])"

subsection \<open>Projects, environment and collaborators\<close>

text \<open>
  What the assembly reads of a project configuration; every other field travels in the
  record's extension. An absent \<open>name\<close> is \<open>None\<close>; \<open>skip\<close> is the truthiness of the
  field.
\<close>

record project_config =
  name :: "string option"
  skip :: bool

record extra_options =
  clean :: bool
  options_filter :: "filter_option option"

text \<open>
  \<open>environment.options\<close> when truthy: an object, or a truthy value of another type.
\<close>

datatype env_options = Options_object extra_options | Options_other

record environment =
  dll :: bool
  test :: bool
  env_options :: "env_options option"

text \<open>The \<open>env\<close> argument: falsy, an object, or a truthy value that is no object.\<close>

datatype env_argument = Env_falsy | Env_object environment | Env_other

record argv =
  fromAngularBuildCli :: bool
  argv_filter :: "filter_option option"

record 'z AngularBuildConfigInternal =
  libs :: "'z project_config_scheme list option"
  apps :: "'z project_config_scheme list option"

text \<open>
  A configuration of the result list: the bundler configuration and, when the build is
  driven by the command line tool, the \<open>_projectConfig\<close> attached to it.
\<close>

record ('z, 'c) result_config =
  wpConfig :: 'c
  attached_projectConfig :: "'z project_config_scheme option"

text \<open>
  The collaborators of \<open>getWebpackConfig\<close> that are outside these sources, as
  parameters. \<open>JSON_parse\<close> throws or returns a value, \<open>Some\<close> when it is a non-null
  object; \<open>readJsonSync\<close> throws an error with a message; \<open>schemaExists p\<close> is
  \<open>existsSync(path.resolve(__dirname, p))\<close>; \<open>validateSchema\<close> gives the formatted
  violations; \<open>validateProjectConfig\<close> throws or returns; a builder throws, returns
  \<open>null\<close> or returns a configuration. The builders receive the
  \<open>AngularBuildContext\<close> made of the declared and the resolved project configuration.
\<close>

record ('z, 'c) collaborators =
  process_env_WEBPACK_ENV :: "string option"
  JSON_parse :: "string \<Rightarrow> error + environment option"
  path_dirname :: "string \<Rightarrow> string"
  existsSync :: "string \<Rightarrow> bool"
  readJsonSync :: "string \<Rightarrow> string + 'z AngularBuildConfigInternal"
  schemaExists :: "string \<Rightarrow> bool"
  validateSchema :: "'z AngularBuildConfigInternal \<Rightarrow> string list"
  applyAngularBuildConfigDefaults ::
    "'z AngularBuildConfigInternal \<Rightarrow> 'z AngularBuildConfigInternal"
  applyProjectConfigWithEnvOverrides ::
    "'z project_config_scheme \<Rightarrow> environment \<Rightarrow> 'z project_config_scheme"
  validateProjectConfig :: "string \<Rightarrow> 'z project_config_scheme \<Rightarrow> error option"
  applyProjectConfigDefaults ::
    "string \<Rightarrow> 'z project_config_scheme \<Rightarrow> environment \<Rightarrow> 'z project_config_scheme"
  getLibWebpackConfig ::
    "'z project_config_scheme \<Rightarrow> 'z project_config_scheme \<Rightarrow> error + 'c option"
  getAppWebpackConfig ::
    "'z project_config_scheme \<Rightarrow> 'z project_config_scheme \<Rightarrow> error + 'c option"
  getAppDllWebpackConfig_of ::
    "'z project_config_scheme \<Rightarrow> 'z project_config_scheme \<Rightarrow> error + 'c option"

subsection \<open>Project filter\<close>

text \<open>
  The two filters, lines 266 to 276 for the libraries and 308 to 318 for the apps: the
  \<open>filter\<close> call and the shortcut that empties its result. In both,
  \<open>projectConfig.name && filterNames.includes(projectConfig.name)\<close> is:
\<close>

definition name_requested :: "string list \<Rightarrow> 'z project_config_scheme \<Rightarrow> bool" where
  "name_requested filterNames projectConfig =
     (case name projectConfig of
        None \<Rightarrow> False
      | Some n \<Rightarrow> n \<noteq> [] \<and> n \<in> set filterNames)"

definition filteredLibConfigs ::
  "string list \<Rightarrow> 'z project_config_scheme list \<Rightarrow> 'z project_config_scheme list" where
  "filteredLibConfigs filterNames libConfigs =
     (let filtered = filter (\<lambda>projectConfig.
            length filterNames = 0 \<or>
            (length filterNames > 0 \<and>
             (''libs'' \<in> set filterNames \<or> name_requested filterNames projectConfig)))
          libConfigs
      in if length filterNames \<noteq> 0 \<and>
            length (filter (\<lambda>configName. configName = ''apps'') filterNames) = length filterNames
         then [] else filtered)"

definition filteredAppConfigs ::
  "string list \<Rightarrow> 'z project_config_scheme list \<Rightarrow> 'z project_config_scheme list" where
  "filteredAppConfigs filterNames appConfigs =
     (let filtered = filter (\<lambda>projectConfig.
            length filterNames = 0 \<or>
            (length filterNames > 0 \<and>
             (''apps'' \<in> set filterNames \<or> name_requested filterNames projectConfig)))
          appConfigs
      in if length filterNames \<noteq> 0 \<and>
            length (filter (\<lambda>configName. configName = ''libs'') filterNames) = length filterNames
         then [] else filtered)"

subsection \<open>The per-project loops\<close>

text \<open>
  The loop over the filtered library projects (lines 279 to 303 of the source file;
  \<open>getWebpackConfig\<close> is lines 113 to 366). \<open>JSON.parse(JSON.stringify(c))\<close> clones
  the declared configuration; values here are immutable, so the clone is the value. A
  skipped project and a \<open>null\<close> configuration add nothing; a throw ends the loop.
  \<open>AngularBuildContext.init\<close> and the static setters before the loops write the
  process-wide context only, which nothing modelled here reads.
\<close>

fun libConfigs_loop ::
  "('z, 'c) collaborators \<Rightarrow> string \<Rightarrow> environment \<Rightarrow> bool \<Rightarrow>
   'z project_config_scheme list \<Rightarrow> error + ('z, 'c) result_config list" where
  "libConfigs_loop h projectRoot env fromCli [] = Inr []"
| "libConfigs_loop h projectRoot env fromCli (libConfig # rest) =
     (let clonedLibConfig = applyProjectConfigWithEnvOverrides h libConfig env in
      if skip clonedLibConfig then libConfigs_loop h projectRoot env fromCli rest
      else
        (case validateProjectConfig h projectRoot clonedLibConfig of
           Some e \<Rightarrow> Inl e
         | None \<Rightarrow>
             (let resolved = applyProjectConfigDefaults h projectRoot clonedLibConfig env in
              case getLibWebpackConfig h libConfig resolved of
                Inl e \<Rightarrow> Inl e
              | Inr None \<Rightarrow> libConfigs_loop h projectRoot env fromCli rest
              | Inr (Some wp) \<Rightarrow>
                  (case libConfigs_loop h projectRoot env fromCli rest of
                     Inl e \<Rightarrow> Inl e
                   | Inr more_configs \<Rightarrow>
                       Inr (\<lparr>wpConfig = wp,
                             attached_projectConfig =
                               (if fromCli then Some resolved else None)\<rparr> # more_configs)))))"

text \<open>
  The loop over the filtered app projects (lines 321 to 357); in a dll pass
  (\<open>environment.dll\<close>) the vendor-bundle builder replaces the app builder.
\<close>

fun appConfigs_loop ::
  "('z, 'c) collaborators \<Rightarrow> string \<Rightarrow> environment \<Rightarrow> bool \<Rightarrow>
   'z project_config_scheme list \<Rightarrow> error + ('z, 'c) result_config list" where
  "appConfigs_loop h projectRoot env fromCli [] = Inr []"
| "appConfigs_loop h projectRoot env fromCli (appConfig # rest) =
     (let clonedAppConfig = applyProjectConfigWithEnvOverrides h appConfig env in
      if skip clonedAppConfig then appConfigs_loop h projectRoot env fromCli rest
      else
        (case validateProjectConfig h projectRoot clonedAppConfig of
           Some e \<Rightarrow> Inl e
         | None \<Rightarrow>
             (let resolved = applyProjectConfigDefaults h projectRoot clonedAppConfig env in
              case (if dll env then getAppDllWebpackConfig_of h appConfig resolved
                    else getAppWebpackConfig h appConfig resolved) of
                Inl e \<Rightarrow> Inl e
              | Inr None \<Rightarrow> appConfigs_loop h projectRoot env fromCli rest
              | Inr (Some wp) \<Rightarrow>
                  (case appConfigs_loop h projectRoot env fromCli rest of
                     Inl e \<Rightarrow> Inl e
                   | Inr more_configs \<Rightarrow>
                       Inr (\<lparr>wpConfig = wp,
                             attached_projectConfig =
                               (if fromCli then Some resolved else None)\<rparr> # more_configs)))))"

subsection \<open>Preparation (everything before the loops)\<close>

text \<open>\<open>/\.json$/i.test(configPath)\<close>.\<close>

definition json_extension :: "string \<Rightarrow> bool" where
  "json_extension configPath =
     (case rev configPath of
        c4 # c3 # c2 # c1 # c0 # front \<Rightarrow>
          c0 = CHR ''.'' \<and> (c1 = CHR ''j'' \<or> c1 = CHR ''J'') \<and>
          (c2 = CHR ''s'' \<or> c2 = CHR ''S'') \<and> (c3 = CHR ''o'' \<or> c3 = CHR ''O'') \<and>
          (c4 = CHR ''n'' \<or> c4 = CHR ''N'')
      | _ \<Rightarrow> False)"

text \<open>
  The two probes for the schema file: the flag is set when the first candidate exists,
  or else when the second does; the third candidate is assigned but never probed.
\<close>

definition existsSchemaPath :: "('z, 'c) collaborators \<Rightarrow> bool" where
  "existsSchemaPath h =
     (let schemaPath = ''../schemas/schema.json'';
          found1 = schemaExists h schemaPath;
          schemaPath2 = (if \<not> found1 then ''../../schemas/schema.json'' else schemaPath);
          found2 = schemaExists h schemaPath2
      in if \<not> found2 then found1 else True)"

text \<open>
  The environment object: \<open>env\<close>, or the parsed \<open>WEBPACK_ENV\<close> variable when the call
  does not come from the command line tool and gives no \<open>env\<close>. A parse error is thrown
  to the caller.
\<close>

definition prepare_environment ::
  "('z, 'c) collaborators \<Rightarrow> bool \<Rightarrow> env_argument \<Rightarrow> error + environment" where
  "prepare_environment h fromCli env_arg =
     (let empty_env = \<lparr>dll = False, test = False, env_options = None\<rparr> in
      case env_arg of
        Env_object e \<Rightarrow> Inr e
      | Env_other \<Rightarrow> Inr empty_env
      | Env_falsy \<Rightarrow>
          (case process_env_WEBPACK_ENV h of
             None \<Rightarrow> Inr empty_env
           | Some rawEnv \<Rightarrow>
               if fromCli \<or> rawEnv = [] then Inr empty_env
               else (case JSON_parse h rawEnv of
                       Inl e \<Rightarrow> Inl e
                     | Inr None \<Rightarrow> Inr empty_env
                     | Inr (Some envObj) \<Rightarrow> Inr envObj)))"

text \<open>
  Lines 116 to 246: every check that throws before the loops, in the order of the
  source, and what the loops read of the values computed there.
\<close>

record 'z prepared =
  prepared_projectRoot :: string
  prepared_fromCli :: bool
  prepared_filterNames :: "string list"
  prepared_environment :: environment
  prepared_libConfigs :: "'z project_config_scheme list"
  prepared_appConfigs :: "'z project_config_scheme list"

definition prepare ::
  "('z, 'c) collaborators \<Rightarrow> string \<Rightarrow> env_argument \<Rightarrow> argv option \<Rightarrow> error + 'z prepared" where
  "prepare h configPath env_arg argv_arg =
     (if configPath = [] then Inl (InvalidOptionError ''The 'configPath' is required.'')
      else
        (let projectRoot = path_dirname h configPath;
             fromCli = (case argv_arg of None \<Rightarrow> False | Some a \<Rightarrow> fromAngularBuildCli a);
             cliFilterNames =
               (case argv_arg of
                  None \<Rightarrow> []
                | Some a \<Rightarrow>
                    (case argv_filter a of
                       None \<Rightarrow> []
                     | Some f \<Rightarrow> if fromCli \<and> filter_truthy f then prepareFilterNames f else []))
         in case prepare_environment h fromCli env_arg of
              Inl e \<Rightarrow> Inl e
            | Inr environment0 \<Rightarrow>
                (let extraOptions =
                       (if fromCli then None
                        else (case env_options environment0 of
                                Some (Options_object opts) \<Rightarrow> Some opts
                              | _ \<Rightarrow> None));
                     env = (if fromCli then environment0
                            else environment0\<lparr>env_options := None\<rparr>);
                     filterNames =
                       (case extraOptions of
                          None \<Rightarrow> cliFilterNames
                        | Some opts \<Rightarrow>
                            (case options_filter opts of
                               None \<Rightarrow> cliFilterNames
                             | Some f \<Rightarrow>
                                 if filter_truthy f then prepareFilterNames f
                                 else cliFilterNames))
                 in if \<not> json_extension configPath
                    then Inl (InvalidOptionError (''Invalid config file, path: '' @ configPath @ ''.''))
                    else if \<not> existsSync h configPath
                    then Inl (InvalidOptionError
                      (''angular-build.json config file does not exist - search location: '' @
                       configPath @ ''.'' @
                       ''Please use --config=<your config file> option or make sure angular-build.json is existed in current working directory''))
                    else
                      (case readJsonSync h configPath of
                         Inl message \<Rightarrow>
                           Inl (InvalidConfigError
                                  (''Invalid configuration, error: '' @ message @ ''.''))
                       | Inr angularBuildConfig0 \<Rightarrow>
                           if \<not> existsSchemaPath h
                           then Inl (InternalError ''The angular-build schema file doesn't exist.'')
                           else if validateSchema h angularBuildConfig0 \<noteq> []
                           then Inl (InvalidConfigError
                                  (''Invalid configuration.'' @ [CHR 0x0A, CHR 0x0A] @
                                   concat (map (\<lambda>m. m @ [CHR 0x0A])
                                                (butlast (validateSchema h angularBuildConfig0))) @
                                   last (validateSchema h angularBuildConfig0)))
                           else
                             (let angularBuildConfig =
                                    applyAngularBuildConfigDefaults h angularBuildConfig0;
                                  libConfigs = (case libs angularBuildConfig of
                                                  None \<Rightarrow> [] | Some l \<Rightarrow> l);
                                  appConfigs = (case apps angularBuildConfig of
                                                  None \<Rightarrow> [] | Some a \<Rightarrow> a)
                              in if length appConfigs = 0 \<and> length libConfigs = 0
                                 then Inl (InvalidConfigError ''No app or lib project is available.'')
                                 else Inr \<lparr>prepared_projectRoot = projectRoot,
                                           prepared_fromCli = fromCli,
                                           prepared_filterNames = filterNames,
                                           prepared_environment = env,
                                           prepared_libConfigs = libConfigs,
                                           prepared_appConfigs = appConfigs\<rparr>)))))"

subsection \<open>Collecting the configurations\<close>

text \<open>
  The two blocks that fill \<open>webpackConfigs\<close> (lines 263 to 359): libraries first,
  then apps. \<open>getWebpackConfig\<close> is the preparation, the two blocks, and the last
  check (lines 361 to 365).
\<close>

definition collect ::
  "('z, 'c) collaborators \<Rightarrow> 'z prepared \<Rightarrow> error + ('z, 'c) result_config list" where
  "collect h p =
     (case libConfigs_loop h (prepared_projectRoot p) (prepared_environment p)
             (prepared_fromCli p)
             (filteredLibConfigs (prepared_filterNames p) (prepared_libConfigs p)) of
        Inl e \<Rightarrow> Inl e
      | Inr libResults \<Rightarrow>
          (case appConfigs_loop h (prepared_projectRoot p) (prepared_environment p)
                  (prepared_fromCli p)
                  (filteredAppConfigs (prepared_filterNames p) (prepared_appConfigs p)) of
             Inl e \<Rightarrow> Inl e
           | Inr appResults \<Rightarrow> Inr (libResults @ appResults)))"

definition getWebpackConfig ::
  "('z, 'c) collaborators \<Rightarrow> string \<Rightarrow> env_argument \<Rightarrow> argv option \<Rightarrow>
   error + ('z, 'c) result_config list" where
  "getWebpackConfig h configPath env_arg argv_arg =
     (case prepare h configPath env_arg argv_arg of
        Inl e \<Rightarrow> Inl e
      | Inr p \<Rightarrow>
          (case collect h p of
             Inl e \<Rightarrow> Inl e
           | Inr webpackConfigs \<Rightarrow>
               if length webpackConfigs = 0
               then Inl (InvalidConfigError ''No app or lib project is available.'')
               else Inr webpackConfigs))"

section \<open>Vendor-bundle configuration (getAppDllWebpackConfig)\<close>

subsection \<open>Data\<close>

record web_project_config = project_config +
  platformTarget :: "string option"
  publicPath :: "string option"

record output_hashing =
  bundles :: bool

record dll_parsed_result =
  tsEntries :: "string list"
  scriptEntries :: "string list"
  styleEntries :: "string list"

text \<open>
  The fields of the resolved app configuration that the vendor-bundle builder reads;
  \<open>index_internal\<close>, \<open>isDll\<close>, \<open>projectType_internal\<close>, \<open>outputHashing\<close>,
  \<open>dllParsedResult\<close> and \<open>tsConfigPath\<close> are the computed fields \<open>_index\<close>,
  \<open>_isDll\<close>, \<open>_projectType\<close>, \<open>_outputHashing\<close>, \<open>_dllParsedResult\<close> and
  \<open>_tsConfigPath\<close>. Of \<open>dlls\<close> only the truthiness is read: it is truthy when present.
\<close>

record AppProjectConfigInternal = web_project_config +
  index_internal :: nat
  isDll :: bool
  projectType_internal :: "string option"
  root :: "string option"
  outputPath :: "string option"
  outputHashing :: "output_hashing option"
  vendorChunkName :: "string option"
  dlls :: "string list option"
  dllParsedResult :: "dll_parsed_result option"
  tsConfig :: "string option"
  tsConfigPath :: "string option"
  webpackConfig :: "string option"

record AngularBuildContext =
  projectConfig :: AppProjectConfigInternal
  buildOptions_logLevel :: "string option"

text \<open>
  The \<open>entry\<close> of a bundler configuration: absent, a string, an array, an object from
  chunk names to module lists, or a function, given by the entry object it returns.
\<close>

datatype entry_value =
    Entry_undefined
  | Entry_string string
  | Entry_array "string list"
  | Entry_object "(string \<times> string list) list"
  | Entry_function "(string \<times> string list) list"

record ts_loader_options =
  loader_instance :: string
  transpileOnly :: bool
  onlyCompileBundledFiles :: bool
  silent :: bool
  configFile :: "string option"
  logLevel :: "string option"

text \<open>
  A module rule: the TypeScript rule of the vendor bundle (test, loader, options and
  the included files), or a rule of another fragment.
\<close>

datatype rule =
    Ts_rule string string ts_loader_options "string list"
  | External_rule string

text \<open>
  Plugins with their options: \<open>DllPlugin context path name\<close>,
  \<open>WriteStatsJsonWebpackPlugin outputPath path forceWriteToDisk logLevel\<close>,
  \<open>WriteAssetsToDiskWebpackPlugin outputPath emittedPaths exclude logLevel\<close>,
  \<open>IgnorePlugin\<close> with the source of its pattern, or a plugin of another fragment.
\<close>

datatype plugin =
    DllPlugin string string string
  | WriteStatsJsonWebpackPlugin string string bool "string option"
  | WriteAssetsToDiskWebpackPlugin string "string list" "string list" "string option"
  | IgnorePlugin string
  | External_plugin string

record webpack_configuration =
  entry :: entry_value
  resolve_extensions :: "string list option"
  output_publicPath :: "string option"
  output_library :: "string option"
  module_rules :: "rule list"
  plugins :: "plugin list"

text \<open>The configuration \<open>{}\<close>.\<close>

definition empty_configuration :: webpack_configuration where
  "empty_configuration =
     \<lparr>entry = Entry_undefined, resolve_extensions = None, output_publicPath = None,
      output_library = None, module_rules = [], plugins = []\<rparr>"

text \<open>
  The collaborators of the vendor-bundle builder that are outside these sources:
  \<open>AngularBuildContext.workspaceRoot\<close>, \<open>path.resolve\<close> on its argument list,
  \<open>outputHashFormat.bundle\<close>, the other fragment builders (each may throw;
  \<open>getCustomWebpackConfig\<close> may also return a falsy value), \<open>getAngularFixPlugins\<close>,
  \<open>resolveLoaderPath\<close> and \<open>webpack-merge\<close>.
\<close>

record dll_collaborators =
  workspaceRoot :: string
  resolve :: "string list \<Rightarrow> string"
  outputHashFormat_bundle :: string
  getCustomWebpackConfig ::
    "string \<Rightarrow> AngularBuildContext \<Rightarrow> error + webpack_configuration option"
  getAppCommonWebpackConfigPartial :: "AngularBuildContext \<Rightarrow> error + webpack_configuration"
  getAppStylesWebpackConfigPartial :: "AngularBuildContext \<Rightarrow> error + webpack_configuration"
  getAngularFixPlugins :: "AngularBuildContext \<Rightarrow> plugin list"
  resolveLoaderPath :: "string \<Rightarrow> string"
  webpackMerge :: "webpack_configuration list \<Rightarrow> webpack_configuration"

subsection \<open>Helpers for JavaScript idioms\<close>

text \<open>Truthiness of an optional string: present and not empty.\<close>

definition truthy :: "string option \<Rightarrow> bool" where
  "truthy v = (case v of None \<Rightarrow> False | Some s \<Rightarrow> s \<noteq> [])"

text \<open>\<open>v || d\<close> for an optional string \<open>v\<close>.\<close>

definition or_default :: "string option \<Rightarrow> string \<Rightarrow> string" where
  "or_default v d = (case v of None \<Rightarrow> d | Some s \<Rightarrow> if s = [] then d else s)"

text \<open>A number in a template string.\<close>

fun number_string :: "nat \<Rightarrow> string" where
  "number_string n =
     (if n < 10 then [char_of (48 + n)]
      else number_string (n div 10) @ [char_of (48 + n mod 10)])"

declare number_string.simps [simp del]

text \<open>\<open>if (!xs.includes(x)) { xs.push(x); }\<close>\<close>

definition push_if_absent :: "'a list \<Rightarrow> 'a \<Rightarrow> 'a list" where
  "push_if_absent xs x = (if x \<in> set xs then xs else xs @ [x])"

subsection \<open>The vendor-bundle-only fragment\<close>

text \<open>
  The three \<open>forEach\<close> loops over the parsed dll result, started from empty
  \<open>tsEntries\<close> and \<open>entries\<close>; the result is the pair of both arrays.
\<close>

definition collect_dll_entries :: "dll_parsed_result \<Rightarrow> string list \<times> string list" where
  "collect_dll_entries dllResult =
     (let (ts, es1) =
            fold (\<lambda>tsEntry (ts_acc, es_acc).
                    (push_if_absent ts_acc tsEntry, push_if_absent es_acc tsEntry))
                 (tsEntries dllResult) ([], []);
          es2 = fold (\<lambda>scriptEntry es_acc. push_if_absent es_acc scriptEntry)
                     (scriptEntries dllResult) es1;
          es3 = fold (\<lambda>styleEntry es_acc. push_if_absent es_acc styleEntry)
                     (styleEntries dllResult) es2
      in (ts, es3))"

text \<open>
  The configuration the builder returns (\<open>webpackDllConfig\<close>), from the collected
  \<open>tsEntries\<close> and \<open>entries\<close>: lines 61 to 72 and 110 to 193 of the source.
\<close>

definition dll_fragment ::
  "dll_collaborators \<Rightarrow> AngularBuildContext \<Rightarrow> string list \<Rightarrow> string list \<Rightarrow>
   webpack_configuration" where
  "dll_fragment h ctx ts es =
     (let level = buildOptions_logLevel ctx;
          appConfig = projectConfig ctx;
          projectRoot = resolve h [workspaceRoot h, or_default (root appConfig) []];
          outPath = resolve h [workspaceRoot h, or_default (outputPath appConfig) []];
          libHashFormat =
            (if (\<not> truthy (platformTarget appConfig) \<or>
                 platformTarget appConfig = Some ''web'') \<and>
                (case outputHashing appConfig of None \<Rightarrow> False | Some oh \<Rightarrow> bundles oh)
             then outputHashFormat_bundle h else []);
          libraryName = ''[name]_'' @ (if libHashFormat = [] then ''lib'' else libHashFormat);
          vendor = or_default (vendorChunkName appConfig) ''vendor''
      in
      \<lparr>entry = Entry_object [(vendor, es)],
       resolve_extensions = Some (if length ts > 0 then [''.ts'', ''.js''] else [''.js'']),
       output_publicPath = Some (or_default (publicPath appConfig) ''/''),
       output_library = Some libraryName,
       module_rules =
         (if length ts > 0
          then [Ts_rule (CHR 0x5C # ''.ts$'') (resolveLoaderPath h ''ts-loader'')
                  \<lparr>loader_instance =
                     ''at-'' @ or_default (name appConfig)
                       (''apps['' @ number_string (index_internal appConfig) @ '']'') @
                     ''-loader'',
                   transpileOnly = (\<not> truthy (tsConfig appConfig)),
                   onlyCompileBundledFiles = (\<not> truthy (tsConfig appConfig)),
                   silent = (level \<noteq> Some ''debug''),
                   configFile =
                     (if truthy (tsConfig appConfig) \<and> truthy (tsConfigPath appConfig)
                      then tsConfigPath appConfig else None),
                   logLevel = (if truthy level then level else None)\<rparr>
                  ts]
          else []),
       plugins =
         [DllPlugin projectRoot (resolve h [outPath, vendor @ ''-manifest.json''])
            libraryName,
          WriteStatsJsonWebpackPlugin outPath
            (resolve h [outPath, vendor @ ''-assets.json'']) True level,
          WriteAssetsToDiskWebpackPlugin outPath
            [resolve h [outPath, vendor @ ''-manifest.json'']]
            [vendor @ ''-assets.json''] level,
          IgnorePlugin ''^vertx$''] @
         getAngularFixPlugins h ctx\<rparr>)"

text \<open>
  The builder: the checks that throw, the collection of the entries, and the
  configuration above.
\<close>

definition getAppDllWebpackConfigPartial ::
  "dll_collaborators \<Rightarrow> AngularBuildContext \<Rightarrow> error + webpack_configuration" where
  "getAppDllWebpackConfigPartial h ctx =
     (let appConfig = projectConfig ctx in
      if \<not> truthy (outputPath appConfig)
      then Inl (InvalidConfigError
             (''The 'projects['' @
              or_default (name appConfig) (number_string (index_internal appConfig)) @
              ''].outputPath' value is required.''))
      else
        (case (if dlls appConfig = None then Inr ([], [])
               else (case dllParsedResult appConfig of
                       None \<Rightarrow> Inl (InternalError ''The 'appConfig._dllParsedResult' is not set'')
                     | Some dllResult \<Rightarrow> Inr (collect_dll_entries dllResult))) of
           Inl e \<Rightarrow> Inl e
         | Inr (ts, es) \<Rightarrow>
             if length es = 0
             then Inl (InvalidConfigError
                    (''No entry available in 'apps['' @
                     number_string (index_internal appConfig) @ ''].dll'.''))
             else Inr (dll_fragment h ctx ts es)))"

subsection \<open>The merger\<close>

text \<open>\<open>!mergedConfig.entry\<close>: the entry is absent or the empty string.\<close>

fun entry_falsy :: "entry_value \<Rightarrow> bool" where
  "entry_falsy Entry_undefined = True"
| "entry_falsy (Entry_string s) = (s = [])"
| "entry_falsy _ = False"

text \<open>
  \<open>typeof mergedConfig.entry === 'object' && !Object.keys(mergedConfig.entry).length\<close>:
  an object or an array without keys.
\<close>

fun entry_object_without_keys :: "entry_value \<Rightarrow> bool" where
  "entry_object_without_keys (Entry_object m) = (length m = 0)"
| "entry_object_without_keys (Entry_array xs) = (length xs = 0)"
| "entry_object_without_keys _ = False"

text \<open>
  The four fragments in the order of the array literal (the custom fragment is read
  first), merged; a throw of any builder is the result.
\<close>

definition dll_mergedConfig ::
  "dll_collaborators \<Rightarrow> AngularBuildContext \<Rightarrow> error + webpack_configuration" where
  "dll_mergedConfig h ctx =
     (let appConfig = projectConfig ctx in
      case (if truthy (webpackConfig appConfig)
            then (case getCustomWebpackConfig h
                         (resolve h [workspaceRoot h, or_default (root appConfig) [],
                                     or_default (webpackConfig appConfig) []])
                         ctx of
                    Inl e \<Rightarrow> Inl e
                  | Inr None \<Rightarrow> Inr empty_configuration
                  | Inr (Some c) \<Rightarrow> Inr c)
            else Inr empty_configuration) of
        Inl e \<Rightarrow> Inl e
      | Inr customWebpackConfig \<Rightarrow>
          (case getAppCommonWebpackConfigPartial h ctx of
             Inl e \<Rightarrow> Inl e
           | Inr common \<Rightarrow>
               (case getAppStylesWebpackConfigPartial h ctx of
                  Inl e \<Rightarrow> Inl e
                | Inr styles_fragment \<Rightarrow>
                    (case getAppDllWebpackConfigPartial h ctx of
                       Inl e \<Rightarrow> Inl e
                     | Inr vendor_fragment \<Rightarrow>
                         Inr (webpackMerge h
                                [common, styles_fragment, vendor_fragment,
                                 customWebpackConfig])))))"

definition getAppDllWebpackConfig ::
  "dll_collaborators \<Rightarrow> AngularBuildContext \<Rightarrow> error + webpack_configuration" where
  "getAppDllWebpackConfig h ctx =
     (if \<not> isDll (projectConfig ctx) \<or>
         projectType_internal (projectConfig ctx) \<noteq> Some ''app''
      then Inr empty_configuration
      else
        (case dll_mergedConfig h ctx of
           Inl e \<Rightarrow> Inl e
         | Inr mergedConfig \<Rightarrow>
             if entry_falsy (entry mergedConfig) \<or>
                entry_object_without_keys (entry mergedConfig)
             then Inr (mergedConfig\<lparr>entry := Entry_function []\<rparr>)
             else Inr mergedConfig))"

section \<open>Styles fragment (getStylesConfigPartial)\<close>

subsection \<open>Data\<close>

text \<open>
  The project configuration as the styles builder reads it. \<open>extractCss\<close>,
  \<open>sourceMap\<close> and \<open>appendOutputHash\<close> are the truthiness of the fields;
  \<open>includePaths\<close> is \<open>stylePreprocessorOptions.includePaths\<close>.
\<close>

record ProjectConfig = web_project_config +
  projectType :: "string option"
  srcDir :: "string option"
  styles :: "string list option"
  extractCss :: bool
  sourceMap :: bool
  appendOutputHash :: bool
  baseHref :: "string option"
  includePaths :: "string list option"

record build_options =
  build_environment :: "environment option"
  production :: bool
  buildOptions_publicPath :: "string option"
  buildOptions_baseHref :: "string option"

record WebpackConfigOptions =
  options_projectRoot :: string
  options_buildOptions :: build_options
  options_projectConfig :: ProjectConfig

record StyleParsedEntry =
  style_path :: string
  style_entry :: string

text \<open>
  Loaders with the option values the builder computes: \<open>Css_loader sourceMap\<close>,
  \<open>Postcss_loader publicPath baseHref minimizeCss\<close> (the values its plugin factory
  closes over), \<open>Sass_loader sourceMap includePaths\<close>, \<open>Less_loader sourceMap\<close>, and
  a loader given by its request string alone.
\<close>

datatype loader =
    Loader string
  | Css_loader bool
  | Postcss_loader string string bool
  | Sass_loader bool "string list"
  | Less_loader bool

datatype rule_use = Use "loader list" | ExtractTextPlugin_extract "loader list"

record style_rule =
  rule_test :: string
  rule_use :: rule_use
  rule_exclude :: "string list option"
  rule_include :: "string list option"

text \<open>
  \<open>ExtractTextPlugin filename\<close> and \<open>SuppressEntryChunksWebpackPlugin chunks\<close>, which
  suppresses the script artifacts of the chunks it lists.
\<close>

datatype style_plugin =
    ExtractTextPlugin string
  | SuppressEntryChunksWebpackPlugin "string list"

record styles_config_partial =
  styles_entry :: "(string \<times> string list) list"
  styles_rules :: "style_rule list"
  styles_plugins :: "style_plugin list"

text \<open>
  Collaborators outside these sources: \<open>path.resolve\<close> on two arguments and
  \<open>parseStyleEntry\<close>.
\<close>

record styles_collaborators =
  resolve2 :: "string \<Rightarrow> string \<Rightarrow> string"
  parseStyleEntry :: "string list \<Rightarrow> string \<Rightarrow> string \<Rightarrow> StyleParsedEntry list"

subsection \<open>The builder\<close>

text \<open>\<open>buildOptions.environment || {}\<close>\<close>

definition styles_environment :: "WebpackConfigOptions \<Rightarrow> environment" where
  "styles_environment webpackConfigOptions =
     (case build_environment (options_buildOptions webpackConfigOptions) of
        None \<Rightarrow> \<lparr>dll = False, test = False, env_options = None\<rparr>
      | Some e \<Rightarrow> e)"

text \<open>
  \<open>entryPoints\<close> is a plain object (\<open>{}\<close>), so \<open>entryPoints[style.entry]\<close> also finds
  what the object inherits from \<open>Object.prototype\<close>. These are the inherited names;
  each holds a function, and \<open>__proto__\<close> the prototype object itself, so the lookup
  is truthy and the value has no \<open>push\<close>.
\<close>

definition Object_prototype_members :: "string list" where
  "Object_prototype_members =
     [''constructor'', ''__defineGetter__'', ''__defineSetter__'', ''hasOwnProperty'',
      ''__lookupGetter__'', ''__lookupSetter__'', ''isPrototypeOf'',
      ''propertyIsEnumerable'', ''toString'', ''valueOf'', ''__proto__'',
      ''toLocaleString'']"

text \<open>
  The own properties of \<open>entryPoints\<close> are an association list in the order of their
  creation. \<open>push_or_create\<close> is the object after \<open>entryPoints[k].push(p)\<close> for an own
  chunk \<open>k\<close>, or after \<open>entryPoints[k] = [p]\<close> for a new one.
\<close>

fun push_or_create ::
  "(string \<times> string list) list \<Rightarrow> string \<Rightarrow> string \<Rightarrow> (string \<times> string list) list" where
  "push_or_create [] k p = [(k, [p])]"
| "push_or_create ((k', paths) # entryPoints) k p =
     (if k' = k then (k', paths @ [p]) # entryPoints
      else (k', paths) # push_or_create entryPoints k p)"

text \<open>
  One step of the loop that adds style entry points (lines 175 to 179): an own chunk
  gets the path pushed; a name the object only inherits is truthy too, its \<open>push\<close> is
  no function, and the call throws a \<open>TypeError\<close>; any other name starts a new chunk.
\<close>

definition add_style_entry ::
  "(string \<times> string list) list \<Rightarrow> StyleParsedEntry \<Rightarrow>
   error + (string \<times> string list) list" where
  "add_style_entry entryPoints style =
     (if style_entry style \<in> fst ` set entryPoints
      then Inr (push_or_create entryPoints (style_entry style) (style_path style))
      else if style_entry style \<in> set Object_prototype_members
      then Inl TypeError
      else Inr (push_or_create entryPoints (style_entry style) (style_path style)))"

text \<open>The \<open>forEach\<close> over the parsed global styles; the first throw ends it.\<close>

fun add_style_entries ::
  "StyleParsedEntry list \<Rightarrow> (string \<times> string list) list \<Rightarrow>
   error + (string \<times> string list) list" where
  "add_style_entries [] entryPoints = Inr entryPoints"
| "add_style_entries (style # rest) entryPoints =
     (case add_style_entry entryPoints style of
        Inl e \<Rightarrow> Inl e
      | Inr entryPoints' \<Rightarrow> add_style_entries rest entryPoints')"

text \<open>
  \<open>Object.keys\<close>: the own property names that are array indices (decimal numerals
  without a leading zero, below \<open>2^32 - 1\<close>) in ascending numeric order, then all other
  names in the order of their creation.
\<close>

definition decimal_value :: "string \<Rightarrow> int" where
  "decimal_value s = fold (\<lambda>c n. 10 * n + (of_char c - 48)) s 0"

definition is_array_index :: "string \<Rightarrow> bool" where
  "is_array_index s =
     (s \<noteq> [] \<and> list_all (\<lambda>c. c \<in> set ''0123456789'') s \<and>
      (s = ''0'' \<or> hd s \<noteq> CHR ''0'') \<and> decimal_value s \<le> 4294967294)"

definition Object_keys :: "(string \<times> 'a) list \<Rightarrow> string list" where
  "Object_keys properties =
     sort_key decimal_value (filter is_array_index (map fst properties)) @
     filter (\<lambda>k. \<not> is_array_index k) (map fst properties)"

definition baseRules :: "bool \<Rightarrow> string list \<Rightarrow> (string \<times> loader list) list" where
  "baseRules cssSourceMap resolvedIncludePaths =
     [(CHR 0x5C # ''.css$'', []),
      (CHR 0x5C # ''.scss$|'' @ CHR 0x5C # ''.sass$'',
       [Sass_loader cssSourceMap resolvedIncludePaths]),
      (CHR 0x5C # ''.less$'', [Less_loader cssSourceMap])]"

text \<open>
  The local \<open>srcDir\<close> and \<open>globalStyleParsedEntries\<close> of the builder: the resolved
  source directory, and the parsed global styles (none when \<open>styles\<close> is absent or
  empty).
\<close>

definition styles_srcDir :: "styles_collaborators \<Rightarrow> WebpackConfigOptions \<Rightarrow> string" where
  "styles_srcDir h webpackConfigOptions =
     (let pc = options_projectConfig webpackConfigOptions;
          projectRoot = options_projectRoot webpackConfigOptions
      in if truthy (srcDir pc) then resolve2 h projectRoot (or_default (srcDir pc) [])
         else projectRoot)"

definition globalStyleParsedEntries ::
  "styles_collaborators \<Rightarrow> WebpackConfigOptions \<Rightarrow> StyleParsedEntry list" where
  "globalStyleParsedEntries h webpackConfigOptions =
     (case styles (options_projectConfig webpackConfigOptions) of
        None \<Rightarrow> []
      | Some entries \<Rightarrow>
          if length entries > 0
          then parseStyleEntry h entries (styles_srcDir h webpackConfigOptions) ''styles''
          else [])"

text \<open>
  The builder. Outside the main web build nothing throws. In the main web build the
  entry loop runs before the global rules and the plugins are made, so its
  \<open>TypeError\<close> is the result of the call.
\<close>

definition getStylesConfigPartial ::
  "styles_collaborators \<Rightarrow> WebpackConfigOptions \<Rightarrow> error + styles_config_partial" where
  "getStylesConfigPartial h webpackConfigOptions =
     (let buildOptions = options_buildOptions webpackConfigOptions;
          pc = options_projectConfig webpackConfigOptions;
          env = styles_environment webpackConfigOptions;
          sourceDir = styles_srcDir h webpackConfigOptions;
          cssSourceMap = (extractCss pc \<and> sourceMap pc);
          minimizeCss = production buildOptions;
          public = or_default (publicPath pc) (or_default (buildOptions_publicPath buildOptions) []);
          base = or_default (baseHref pc) (or_default (buildOptions_baseHref buildOptions) []);
          resolvedIncludePaths =
            (case includePaths pc of
               None \<Rightarrow> []
             | Some ps \<Rightarrow> if length ps > 0 then map (resolve2 h sourceDir) ps else []);
          commonLoaders = [Css_loader cssSourceMap, Postcss_loader public base minimizeCss];
          parsedStyles = globalStyleParsedEntries h webpackConfigOptions;
          globalStylePaths = map style_path parsedStyles;
          styleRules =
            map (\<lambda>(t, u).
                   \<lparr>rule_test = t,
                    rule_use = Use ([Loader ''exports-loader?module.exports.toString()''] @
                                    commonLoaders @ u),
                    rule_exclude = Some globalStylePaths,
                    rule_include = None\<rparr>)
                (baseRules cssSourceMap resolvedIncludePaths)
      in
      if projectType pc = Some ''app'' \<and> platformTarget pc = Some ''web'' \<and>
         \<not> dll env \<and> \<not> test env
      then
        (case (if length parsedStyles > 0 then add_style_entries parsedStyles []
               else Inr []) of
           Inl e \<Rightarrow> Inl e
         | Inr entryPoints \<Rightarrow>
             (let hashFormat = (if appendOutputHash pc then ''.[contenthash:20]'' else []);
                  globalRules =
                    (if length parsedStyles > 0
                     then map (\<lambda>(t, u).
                                 \<lparr>rule_test = t,
                                  rule_use =
                                    (if extractCss pc
                                     then ExtractTextPlugin_extract (commonLoaders @ u)
                                     else Use ([Loader ''style-loader''] @ commonLoaders @ u)),
                                  rule_exclude = None,
                                  rule_include = Some globalStylePaths\<rparr>)
                              (baseRules cssSourceMap resolvedIncludePaths)
                     else []);
                  stylePlugins =
                    (if extractCss pc
                     then [ExtractTextPlugin (''[name]'' @ hashFormat @ ''.css''),
                           SuppressEntryChunksWebpackPlugin (Object_keys entryPoints)]
                     else [])
              in Inr \<lparr>styles_entry = entryPoints, styles_rules = styleRules @ globalRules,
                      styles_plugins = stylePlugins\<rparr>))
      else Inr \<lparr>styles_entry = [], styles_rules = styleRules, styles_plugins = []\<rparr>)"

section \<open>Sample inputs\<close>

text \<open>
  An environment for the asset parser: POSIX absolute paths, resolution by
  joining a relative path onto the base directory and dropping one trailing separator,
  and a file system whose only entries are the three directories listed.
\<close>

definition sample_env :: node_env where
  "sample_env =
     \<lparr>path_isAbsolute = (\<lambda>p. p \<noteq> [] \<and> hd p = CHR ''/''),
      path_resolve = (\<lambda>base p.
        let joined = (if p \<noteq> [] \<and> hd p = CHR ''/'' then p else base @ ''/'' @ p)
        in if joined \<noteq> [] \<and> last joined = CHR ''/'' then butlast joined else joined),
      fs_existsSync = (\<lambda>p. p \<in> set [''/proj/src/assets'', ''/proj/public'', ''/srv/static'']),
      fs_isDirectory = (\<lambda>p. p \<in> set [''/proj/src/assets'', ''/proj/public'', ''/srv/static''])\<rparr>"

text \<open>
  A workspace with one library, skipped, and one app; the schema file is at the first
  candidate path, the configuration validates, and the collaborators leave the project
  configurations as they are and build a configuration named after the builder.
\<close>

definition sample_collaborators :: "(unit, string) collaborators" where
  "sample_collaborators =
     \<lparr>process_env_WEBPACK_ENV = None,
      JSON_parse = (\<lambda>raw. Inr None),
      path_dirname = (\<lambda>p. ''/proj''),
      existsSync = (\<lambda>p. p = ''/proj/angular-build.json''),
      readJsonSync = (\<lambda>p. Inr \<lparr>libs = Some [\<lparr>name = Some ''core'', skip = True\<rparr>],
                                apps = Some [\<lparr>name = Some ''web'', skip = False\<rparr>]\<rparr>),
      schemaExists = (\<lambda>p. p = ''../schemas/schema.json''),
      validateSchema = (\<lambda>c. []),
      applyAngularBuildConfigDefaults = (\<lambda>c. c),
      applyProjectConfigWithEnvOverrides = (\<lambda>c e. c),
      validateProjectConfig = (\<lambda>r c. None),
      applyProjectConfigDefaults = (\<lambda>r c e. c),
      getLibWebpackConfig = (\<lambda>declared resolved. Inr (Some ''lib'')),
      getAppWebpackConfig = (\<lambda>declared resolved. Inr (Some ''app'')),
      getAppDllWebpackConfig_of = (\<lambda>declared resolved. Inr (Some ''dll''))\<rparr>"

text \<open>The same workspace with a configuration file that declares no project.\<close>

definition sample_collaborators_without_projects :: "(unit, string) collaborators" where
  "sample_collaborators_without_projects =
     sample_collaborators\<lparr>readJsonSync := (\<lambda>p. Inr \<lparr>libs = None, apps = Some []\<rparr>)\<rparr>"

text \<open>
  A vendor-bundle project whose parsed dll result repeats entries within and across its
  three lists.
\<close>

definition sample_context :: AngularBuildContext where
  "sample_context =
     \<lparr>projectConfig =
        \<lparr>name = Some ''web'', skip = False, platformTarget = Some ''web'',
         publicPath = None, index_internal = 0, isDll = True,
         projectType_internal = Some ''app'', root = Some ''src'',
         outputPath = Some ''dist'', outputHashing = None, vendorChunkName = None,
         dlls = Some [''dll.ts''],
         dllParsedResult =
           Some \<lparr>tsEntries = [''a.ts'', ''a.ts''],
                 scriptEntries = [''b.js'', ''a.ts''],
                 styleEntries = [''c.css'', ''b.js'']\<rparr>,
         tsConfig = None, tsConfigPath = None, webpackConfig = Some ''custom.js''\<rparr>,
      buildOptions_logLevel = None\<rparr>"

text \<open>
  Collaborators for it: paths resolve by joining, the common and styles fragments are
  empty, the custom fragment sets \<open>entry: {}\<close>, and the merge appends rules and
  plugins and lets a later fragment's entry, extensions and output options replace
  those of an earlier one.
\<close>

definition sample_dll_collaborators :: dll_collaborators where
  "sample_dll_collaborators =
     \<lparr>workspaceRoot = ''/proj'',
      resolve = (\<lambda>parts. case parts of
                            [] \<Rightarrow> []
                          | p # ps \<Rightarrow> fold (\<lambda>part acc. acc @ ''/'' @ part) ps p),
      outputHashFormat_bundle = ''[chunkhash]'',
      getCustomWebpackConfig =
        (\<lambda>p ctx. Inr (Some (empty_configuration\<lparr>entry := Entry_object []\<rparr>))),
      getAppCommonWebpackConfigPartial = (\<lambda>ctx. Inr empty_configuration),
      getAppStylesWebpackConfigPartial = (\<lambda>ctx. Inr empty_configuration),
      getAngularFixPlugins = (\<lambda>ctx. []),
      resolveLoaderPath = (\<lambda>l. l),
      webpackMerge =
        (\<lambda>configs. fold (\<lambda>c acc.
             acc\<lparr>entry := (if entry c = Entry_undefined then entry acc else entry c),
                 resolve_extensions :=
                   (if resolve_extensions c = None then resolve_extensions acc
                    else resolve_extensions c),
                 output_publicPath :=
                   (if output_publicPath c = None then output_publicPath acc
                    else output_publicPath c),
                 output_library :=
                   (if output_library c = None then output_library acc
                    else output_library c),
                 module_rules := module_rules acc @ module_rules c,
                 plugins := plugins acc @ plugins c\<rparr>)
           configs empty_configuration)\<rparr>"

text \<open>
  A main web build of an app with two global styles in one chunk, and the same project
  in a dll pass.
\<close>

definition sample_styles_collaborators :: styles_collaborators where
  "sample_styles_collaborators =
     \<lparr>resolve2 = (\<lambda>a b. a @ ''/'' @ b),
      parseStyleEntry =
        (\<lambda>entries dir defaultEntry.
           map (\<lambda>e. \<lparr>style_path = dir @ ''/'' @ e, style_entry = defaultEntry\<rparr>) entries)\<rparr>"

definition sample_styles_options :: "bool \<Rightarrow> WebpackConfigOptions" where
  "sample_styles_options dll_pass =
     \<lparr>options_projectRoot = ''/proj'',
      options_buildOptions =
        \<lparr>build_environment = Some \<lparr>dll = dll_pass, test = False, env_options = None\<rparr>,
         production = False, buildOptions_publicPath = None, buildOptions_baseHref = None\<rparr>,
      options_projectConfig =
        \<lparr>name = Some ''web'', skip = False, platformTarget = Some ''web'',
         publicPath = None, projectType = Some ''app'', srcDir = Some ''src'',
         styles = Some [''a.css'', ''b.scss''], extractCss = True, sourceMap = False,
         appendOutputHash = False, baseHref = None, includePaths = None\<rparr>\<rparr>"

text \<open>
  The same main web build with a parser that names each chunk after its file, up to the
  first dot, for the styles \<open>a.css\<close>, a second file and \<open>a.scss\<close>: with
  \<open>b.css\<close> the chunks are \<open>a\<close>, \<open>b\<close> and \<open>a\<close>, with \<open>constructor.css\<close> they are
  \<open>a\<close>, \<open>constructor\<close> and \<open>a\<close>.
\<close>

definition sample_styles_collaborators_by_file :: styles_collaborators where
  "sample_styles_collaborators_by_file =
     \<lparr>resolve2 = (\<lambda>a b. a @ ''/'' @ b),
      parseStyleEntry =
        (\<lambda>entries dir defaultEntry.
           map (\<lambda>e. \<lparr>style_path = dir @ ''/'' @ e,
                      style_entry = takeWhile (\<lambda>c. c \<noteq> CHR ''.'') e\<rparr>) entries)\<rparr>"

definition sample_styles_options_by_file :: "string \<Rightarrow> WebpackConfigOptions" where
  "sample_styles_options_by_file second =
     \<lparr>options_projectRoot = ''/proj'',
      options_buildOptions =
        \<lparr>build_environment = Some \<lparr>dll = False, test = False, env_options = None\<rparr>,
         production = False, buildOptions_publicPath = None, buildOptions_baseHref = None\<rparr>,
      options_projectConfig =
        \<lparr>name = Some ''web'', skip = False, platformTarget = Some ''web'',
         publicPath = None, projectType = Some ''app'', srcDir = Some ''src'',
         styles = Some [''a.css'', second, ''a.scss''], extractCss = True,
         sourceMap = False, appendOutputHash = False, baseHref = None,
         includePaths = None\<rparr>\<rparr>"

section \<open>Properties of the gatekeeper\<close>

lemma Object_assign_twice:
  "Object_assign (Object_assign s v) v = Object_assign s v"
  by (rule ext) (simp add: Object_assign_def map_add_def split: option.split)

lemma calls_after_verbose:
  "getWebpackStatsConfig_calls vs (Object_assign s verboseWebpackOutputOptions) =
     (replicate (length vs) (Object_assign s verboseWebpackOutputOptions),
      Object_assign s verboseWebpackOutputOptions)"
  by (induction vs) (simp_all add: getWebpackStatsConfig_def Object_assign_twice Let_def)

lemma verbose_settings:
  "Object_assign s verboseWebpackOutputOptions ''children'' = Some True"
  "Object_assign s verboseWebpackOutputOptions ''assets'' = Some True"
  "Object_assign s verboseWebpackOutputOptions ''version'' = Some True"
  "Object_assign s verboseWebpackOutputOptions ''reasons'' = Some True"
  by (simp_all add: Object_assign_def verboseWebpackOutputOptions_def)

lemma debug_run_module_state:
  "module_state
     (tryDll \<lparr>manifestFile = f, webpackDllConfig = c, debug = Some True\<rparr>
             \<lparr>fs_stat = (\<lambda>p. Stats False), webpack_run = (\<lambda>c. RunStats False)\<rparr> s) =
   Object_assign s verboseWebpackOutputOptions"
  by (simp add: tryDll_def checkManifestFile_def tryDll_then_def getWebpackStatsConfig_def
      Let_def)

lemma later_run_console_info:
  "console_info
     (tryDll \<lparr>manifestFile = f, webpackDllConfig = c, debug = None\<rparr>
             \<lparr>fs_stat = (\<lambda>p. Stats False), webpack_run = (\<lambda>c. RunStats False)\<rparr>
             (Object_assign s verboseWebpackOutputOptions)) =
   [Object_assign s verboseWebpackOutputOptions]"
  by (simp add: tryDll_def checkManifestFile_def tryDll_then_def getWebpackStatsConfig_def)

text \<open>
  Whenever \<open>fs.stat\<close> fails, the hook completes with the stat error and the bundler is
  not invoked.
\<close>

lemma tryDll_stat_error:
  assumes "fs_stat w (manifestFile options) = StatError err"
  shows "tryDll options w s =
    \<lparr>next_call = Next_with (Some err), bundler_invocations = [], console_info = [],
     module_state = s\<rparr>"
  using assms by (simp add: tryDll_def checkManifestFile_def)

text \<open>
  Whenever the bundler is invoked and reports errors, the hook completes with
  \<open>next(undefined)\<close>.
\<close>

lemma tryDll_build_has_errors:
  assumes "fs_stat w (manifestFile options) = Stats False"
    and "webpack_run w (webpackDllConfig options) = RunStats True"
  shows "next_call (tryDll options w s) = Next_with None \<and>
         received_error (next_call (tryDll options w s)) = None \<and>
         bundler_invocations (tryDll options w s) = [webpackDllConfig options]"
  using assms
  by (simp add: tryDll_def checkManifestFile_def tryDll_then_def split: prod.split)

text \<open>
  C1. The claim: whenever the manifest is missing or its stat fails, the hook invokes the
  bundler with the vendor-only configuration instead of completing with an error. The
  code at a missing manifest (\<open>fs.stat\<close> fails with \<open>ENOENT\<close>): the promise of
  \<open>checkManifestFile\<close> is rejected, both \<open>then\<close> handlers are skipped, the hook
  completes with the stat error, and the bundler is never invoked. The build branch is
  taken only when the stat succeeds on something that is no regular file.
\<close>

theorem tryDll_missing_manifest_fails_without_build:
  "tryDll \<lparr>manifestFile = ''dist/vendor-manifest.json'', webpackDllConfig = ''vendor-only'',
           debug = None\<rparr>
          \<lparr>fs_stat = (\<lambda>p. StatError (JsError ''ENOENT'')),
           webpack_run = (\<lambda>c. RunStats False)\<rparr>
          webpackOutputOptions =
   \<lparr>next_call = Next_with (Some (JsError ''ENOENT'')), bundler_invocations = [],
    console_info = [], module_state = webpackOutputOptions\<rparr> \<and>
   tryDll \<lparr>manifestFile = ''dist/vendor-manifest.json'', webpackDllConfig = ''vendor-only'',
           debug = None\<rparr>
          \<lparr>fs_stat = (\<lambda>p. Stats False), webpack_run = (\<lambda>c. RunStats False)\<rparr>
          webpackOutputOptions =
   \<lparr>next_call = Next_no_argument, bundler_invocations = [''vendor-only''],
    console_info = [webpackOutputOptions], module_state = webpackOutputOptions\<rparr>"
  by (simp add: tryDll_def checkManifestFile_def tryDll_then_def getWebpackStatsConfig_def)

text \<open>
  C2. The claim: when the bundler was invoked and its compilation reports errors, the
  completion callback receives a non-null error. The code, where the stat succeeds on
  something that is no regular file (the only way it reaches the bundler) and
  \<open>stats.hasErrors()\<close> is true: \<open>reject()\<close> is called without a reason, so the
  \<open>catch\<close> handler calls \<open>next(undefined)\<close> and the callback receives no error.
\<close>

theorem tryDll_build_errors_complete_without_error:
  "received_error (next_call
     (tryDll \<lparr>manifestFile = ''dist/vendor-manifest.json'', webpackDllConfig = ''vendor-only'',
              debug = None\<rparr>
             \<lparr>fs_stat = (\<lambda>p. Stats False), webpack_run = (\<lambda>c. RunStats True)\<rparr>
             webpackOutputOptions)) = None \<and>
   bundler_invocations
     (tryDll \<lparr>manifestFile = ''dist/vendor-manifest.json'', webpackDllConfig = ''vendor-only'',
              debug = None\<rparr>
             \<lparr>fs_stat = (\<lambda>p. Stats False), webpack_run = (\<lambda>c. RunStats True)\<rparr>
             webpackOutputOptions) = [''vendor-only'']"
  by (simp add: tryDll_def checkManifestFile_def tryDll_then_def getWebpackStatsConfig_def)

text \<open>
  C9. A verbose call of \<open>getWebpackStatsConfig\<close> merges the verbose settings into the
  module-level object itself: from any contents \<open>s\<close>, the object afterwards is
  \<open>Object.assign(s, verbose)\<close>; every later call, whatever its argument, returns an
  object with exactly these contents, in which children, assets, version and reasons
  are true. So the result depends on the call history: on the fresh module a
  non-verbose call returns \<open>children: false\<close>, after one verbose call it returns
  \<open>children: true\<close>. A gatekeeper run with \<open>debug\<close> set that reaches the bundler
  leaves the module object in that state, and a later run without \<open>debug\<close> prints
  its stats with the verbose settings.
\<close>

theorem getWebpackStatsConfig_depends_on_history:
  "snd (getWebpackStatsConfig True s) = Object_assign s verboseWebpackOutputOptions \<and>
   fst (getWebpackStatsConfig_calls vs (snd (getWebpackStatsConfig True s))) =
     replicate (length vs) (Object_assign s verboseWebpackOutputOptions) \<and>
   Object_assign s verboseWebpackOutputOptions ''children'' = Some True \<and>
   Object_assign s verboseWebpackOutputOptions ''assets'' = Some True \<and>
   Object_assign s verboseWebpackOutputOptions ''version'' = Some True \<and>
   Object_assign s verboseWebpackOutputOptions ''reasons'' = Some True \<and>
   fst (getWebpackStatsConfig False webpackOutputOptions) ''children'' = Some False \<and>
   fst (getWebpackStatsConfig False
          (snd (getWebpackStatsConfig True webpackOutputOptions))) ''children'' = Some True \<and>
   module_state
     (tryDll \<lparr>manifestFile = f, webpackDllConfig = c, debug = Some True\<rparr>
             \<lparr>fs_stat = (\<lambda>p. Stats False), webpack_run = (\<lambda>c. RunStats False)\<rparr> s) =
     Object_assign s verboseWebpackOutputOptions \<and>
   console_info
     (tryDll \<lparr>manifestFile = f, webpackDllConfig = c, debug = None\<rparr>
             \<lparr>fs_stat = (\<lambda>p. Stats False), webpack_run = (\<lambda>c. RunStats False)\<rparr>
             (Object_assign s verboseWebpackOutputOptions)) =
     [Object_assign s verboseWebpackOutputOptions]"
proof -
  have after: "snd (getWebpackStatsConfig True s) = Object_assign s verboseWebpackOutputOptions"
    for s by (simp add: getWebpackStatsConfig_def Let_def)
  have fresh: "fst (getWebpackStatsConfig False webpackOutputOptions) ''children'' = Some False"
    by (simp add: getWebpackStatsConfig_def webpackOutputOptions_def)
  have later: "fst (getWebpackStatsConfig False
          (snd (getWebpackStatsConfig True webpackOutputOptions))) ''children'' = Some True"
    by (simp add: getWebpackStatsConfig_def Let_def verbose_settings)
  have calls: "fst (getWebpackStatsConfig_calls vs (snd (getWebpackStatsConfig True s))) =
     replicate (length vs) (Object_assign s verboseWebpackOutputOptions)"
    by (simp add: after calls_after_verbose)
  from after [of s] calls verbose_settings [of s] fresh later
    debug_run_module_state [of f c s] later_run_console_info [of f c s]
  show ?thesis by blast
qed

section \<open>Properties of the asset entry parser\<close>

lemma lastIndexOf_scan_lower:
  "- 1 \<le> found \<Longrightarrow> 0 \<le> i \<Longrightarrow> - 1 \<le> lastIndexOf_scan s c i found"
  by (induction s arbitrary: i found) auto

lemma lastIndexOf_scan_absent:
  "0 \<le> i \<Longrightarrow> (lastIndexOf_scan s c i found = - 1) = (c \<notin> set s \<and> found = - 1)"
  by (induction s arbitrary: i found) auto

lemma lastIndexOf_absent: "(lastIndexOf s c = - 1) = (c \<notin> set s)"
  by (simp add: lastIndexOf_def lastIndexOf_scan_absent)

lemma lastIndexOf_present: "(- 1 < lastIndexOf s c) = (c \<in> set s)"
  using lastIndexOf_absent [of s c] lastIndexOf_scan_lower [of "- 1" 0 s c]
  by (auto simp: lastIndexOf_def)

lemma substr0_butlast: "substr0 p (int (length p) - 1) = butlast p"
  by (simp add: substr0_def butlast_conv_take nat_diff_distrib')

text \<open>
  What the rewrite does to a relative directory: the last character is dropped
  whenever the string contains a separator anywhere, not only when it ends in one.
\<close>

lemma prepareGlobFn_directory:
  assumes "CHR ''*'' \<notin> set p" "p \<noteq> []" "\<not> path_isAbsolute env p"
    "fs_existsSync env (path_resolve env baseDir p)"
    "fs_isDirectory env (path_resolve env baseDir p)"
  shows "prepareGlobFn env baseDir p =
    (if CHR ''/'' \<in> set p then butlast p else p) @ ''/**/*''"
  using assms
  by (simp add: prepareGlobFn_def lastIndexOf_absent lastIndexOf_present substr0_butlast)

lemma prepareGlobFn_absolute: "path_isAbsolute env p \<Longrightarrow> prepareGlobFn env baseDir p = p"
  by (simp add: prepareGlobFn_def)

text \<open>
  C4. The claim: a relative directory \<open>p\<close> without a wildcard yields one glob
  descriptor whose glob is \<open>p\<close>, a single trailing separator stripped and otherwise
  unaltered, followed by \<open>/**/*\<close>. The code at the directory \<open>src/assets\<close> of the
  sample environment: the string contains a separator, so its last character is cut
  although it is no separator, and the glob is \<open>src/asset/**/*\<close>, not
  \<open>src/assets/**/*\<close>.
\<close>

theorem parseAssetEntry_drops_last_character:
  "lastIndexOf ''src/assets'' (CHR ''*'') = - 1 \<and>
   \<not> path_isAbsolute sample_env ''src/assets'' \<and>
   fs_existsSync sample_env (path_resolve sample_env ''/proj'' ''src/assets'') \<and>
   fs_isDirectory sample_env (path_resolve sample_env ''/proj'' ''src/assets'') \<and>
   parseAssetEntry sample_env ''/proj'' (Entries_array [Item_string ''src/assets'']) =
     Inr [\<lparr>parsed_from = From_glob \<lparr>glob = ''src/asset/**/*'', dot = Some True\<rparr>,
           parsed_context = Some ''/proj'', parsed_to = None\<rparr>] \<and>
   parseAssetEntry sample_env ''/proj'' (Entries_array [Item_string ''src/assets'']) \<noteq>
     Inr [\<lparr>parsed_from = From_glob \<lparr>glob = ''src/assets/**/*'', dot = Some True\<rparr>,
           parsed_context = Some ''/proj'', parsed_to = None\<rparr>]"
  by (simp add: parseAssetEntry_def prepareGlobFn_def sample_env_def lastIndexOf_def
      substr0_def Let_def)

text \<open>
  C3, as stated, fails. The claim: an absolute string without a wildcard that resolves
  to an existing directory gets the directory rewrite and is emitted as a glob
  descriptor. At the absolute directory \<open>/srv/static\<close> of the sample environment the
  entry is emitted as a literal path.
\<close>

theorem parseAssetEntry_absolute_directory_counterexample:
  "path_isAbsolute sample_env ''/srv/static'' \<and>
   lastIndexOf ''/srv/static'' (CHR ''*'') = - 1 \<and>
   fs_existsSync sample_env (path_resolve sample_env ''/proj'' ''/srv/static'') \<and>
   fs_isDirectory sample_env (path_resolve sample_env ''/proj'' ''/srv/static'') \<and>
   parseAssetEntry sample_env ''/proj'' (Entries_array [Item_string ''/srv/static'']) =
     Inr [\<lparr>parsed_from = From_string ''/srv/static'', parsed_context = Some ''/proj'',
           parsed_to = None\<rparr>] \<and>
   parseAssetEntry sample_env ''/proj'' (Entries_array [Item_string ''/srv/static'']) \<noteq>
     Inr [\<lparr>parsed_from = From_glob \<lparr>glob = ''/srv/static/**/*'', dot = Some True\<rparr>,
           parsed_context = Some ''/proj'', parsed_to = None\<rparr>]"
  by (simp add: parseAssetEntry_def prepareGlobFn_def sample_env_def lastIndexOf_def Let_def)

text \<open>
  C3, amended. The rewrite is guarded by \<open>!path.isAbsolute(p)\<close>: every absolute string
  entry, an existing directory without a wildcard included, is left unchanged by
  \<open>prepareGlobFn\<close> and emitted as a literal path with context \<open>baseDir\<close>.
\<close>

theorem parseAssetEntry_absolute_is_literal:
  assumes "path_isAbsolute env p"
  shows "prepareGlobFn env baseDir p = p \<and>
         parseAssetEntry env baseDir (Entries_array [Item_string p]) =
           Inr [\<lparr>parsed_from = From_string p, parsed_context = Some baseDir,
                 parsed_to = None\<rparr>]"
  using assms by (simp add: parseAssetEntry_def prepareGlobFn_absolute)

text \<open>The amended C3 at the absolute directory \<open>/srv/static\<close>.\<close>

theorem parseAssetEntry_absolute_is_literal_witness:
  "path_isAbsolute sample_env ''/srv/static'' \<and>
   fs_isDirectory sample_env (path_resolve sample_env ''/proj'' ''/srv/static'') \<and>
   prepareGlobFn sample_env ''/proj'' ''/srv/static'' = ''/srv/static'' \<and>
   parseAssetEntry sample_env ''/proj'' (Entries_array [Item_string ''/srv/static'']) =
     Inr [\<lparr>parsed_from = From_string ''/srv/static'', parsed_context = Some ''/proj'',
           parsed_to = None\<rparr>]"
proof -
  have absolute: "path_isAbsolute sample_env ''/srv/static''"
    by (simp add: sample_env_def)
  have directory: "fs_isDirectory sample_env (path_resolve sample_env ''/proj'' ''/srv/static'')"
    by (simp add: sample_env_def)
  show ?thesis
    using absolute directory
      parseAssetEntry_absolute_is_literal [OF absolute, of "''/proj''"]
    by simp
qed

section \<open>Properties of the configuration assembly\<close>

lemma all_equal_filter_length:
  "(length (filter P xs) = length xs) = (\<forall>n\<in>set xs. P n)"
proof
  assume eq: "length (filter P xs) = length xs"
  show "\<forall>n\<in>set xs. P n"
  proof (rule ccontr)
    assume "\<not> (\<forall>n\<in>set xs. P n)"
    then obtain x where "x \<in> set xs" "\<not> P x" by blast
    with length_filter_less [of x xs P] eq show False by simp
  qed
next
  assume "\<forall>n\<in>set xs. P n"
  then show "length (filter P xs) = length xs" by simp
qed

text \<open>
  C5, as stated, fails. The claim: requesting \<open>libs\<close> empties the app-kind result even
  when specific app names are requested too, and symmetrically for \<open>apps\<close>. With the
  filter names \<open>libs\<close> and \<open>web\<close>, the app named \<open>web\<close> is kept; with \<open>apps\<close> and
  \<open>core\<close>, the library named \<open>core\<close> is kept.
\<close>

theorem filter_libs_with_app_name_counterexample:
  "''libs'' \<in> set [''libs'', ''web''] \<and>
   filteredAppConfigs [''libs'', ''web''] [\<lparr>name = Some ''web'', skip = False\<rparr>] =
     [\<lparr>name = Some ''web'', skip = False\<rparr>] \<and>
   filteredAppConfigs [''libs'', ''web''] [\<lparr>name = Some ''web'', skip = False\<rparr>] \<noteq> [] \<and>
   ''apps'' \<in> set [''apps'', ''core''] \<and>
   filteredLibConfigs [''apps'', ''core''] [\<lparr>name = Some ''core'', skip = False\<rparr>] \<noteq> []"
  by (simp add: filteredAppConfigs_def filteredLibConfigs_def name_requested_def)

text \<open>
  C5, amended. When the requested names are not empty and every one of them is \<open>libs\<close>,
  the app-kind result is empty, and symmetrically the lib-kind result when every one is
  \<open>apps\<close>. When some requested name is not \<open>libs\<close>, the apps kept are all of them if
  \<open>apps\<close> is requested and else those whose name is requested; symmetrically for the
  libraries.
\<close>

theorem filter_exclusive_group_name:
  "(filterNames \<noteq> [] \<and> (\<forall>n\<in>set filterNames. n = ''libs'') \<longrightarrow>
      filteredAppConfigs filterNames appConfigs = []) \<and>
   (filterNames \<noteq> [] \<and> (\<forall>n\<in>set filterNames. n = ''apps'') \<longrightarrow>
      filteredLibConfigs filterNames libConfigs = []) \<and>
   (\<not> (\<forall>n\<in>set filterNames. n = ''libs'') \<longrightarrow>
      filteredAppConfigs filterNames appConfigs =
        filter (\<lambda>c. ''apps'' \<in> set filterNames \<or> name_requested filterNames c) appConfigs) \<and>
   (\<not> (\<forall>n\<in>set filterNames. n = ''apps'') \<longrightarrow>
      filteredLibConfigs filterNames libConfigs =
        filter (\<lambda>c. ''libs'' \<in> set filterNames \<or> name_requested filterNames c) libConfigs)"
proof -
  have nonempty: "\<not> (\<forall>n\<in>set filterNames. n = c) \<Longrightarrow> filterNames \<noteq> []" for c
    by auto
  have a1: "filterNames \<noteq> [] \<and> (\<forall>n\<in>set filterNames. n = ''libs'') \<longrightarrow>
      filteredAppConfigs filterNames appConfigs = []"
    by (simp add: filteredAppConfigs_def Let_def all_equal_filter_length)
  have a2: "filterNames \<noteq> [] \<and> (\<forall>n\<in>set filterNames. n = ''apps'') \<longrightarrow>
      filteredLibConfigs filterNames libConfigs = []"
    by (simp add: filteredLibConfigs_def Let_def all_equal_filter_length)
  have a3: "\<not> (\<forall>n\<in>set filterNames. n = ''libs'') \<longrightarrow>
      filteredAppConfigs filterNames appConfigs =
        filter (\<lambda>c. ''apps'' \<in> set filterNames \<or> name_requested filterNames c) appConfigs"
    using nonempty [of "''libs''"]
    by (simp add: filteredAppConfigs_def Let_def all_equal_filter_length)
  have a4: "\<not> (\<forall>n\<in>set filterNames. n = ''apps'') \<longrightarrow>
      filteredLibConfigs filterNames libConfigs =
        filter (\<lambda>c. ''libs'' \<in> set filterNames \<or> name_requested filterNames c) libConfigs"
    using nonempty [of "''apps''"]
    by (simp add: filteredLibConfigs_def Let_def all_equal_filter_length)
  from a1 a2 a3 a4 show ?thesis by blast
qed

text \<open>
  The amended C5 at concrete filters: \<open>libs\<close> alone empties the apps (an app named
  \<open>libs\<close> included), \<open>apps\<close> alone empties the libraries, and a filter that also names
  a project keeps that project.
\<close>

theorem filter_exclusive_group_name_witness:
  "[''libs''] \<noteq> [] \<and> list_all (\<lambda>n. n = ''libs'') [''libs''] \<and>
   filteredAppConfigs [''libs'']
     [\<lparr>name = Some ''web'', skip = False\<rparr>, \<lparr>name = Some ''libs'', skip = False\<rparr>] = [] \<and>
   [''apps''] \<noteq> [] \<and> list_all (\<lambda>n. n = ''apps'') [''apps''] \<and>
   filteredLibConfigs [''apps''] [\<lparr>name = Some ''apps'', skip = False\<rparr>] = [] \<and>
   \<not> list_all (\<lambda>n. n = ''libs'') [''libs'', ''web''] \<and>
   filteredAppConfigs [''libs'', ''web'']
     [\<lparr>name = Some ''web'', skip = False\<rparr>, \<lparr>name = Some ''admin'', skip = False\<rparr>] =
     [\<lparr>name = Some ''web'', skip = False\<rparr>] \<and>
   \<not> list_all (\<lambda>n. n = ''apps'') [''apps'', ''core''] \<and>
   filteredLibConfigs [''apps'', ''core'']
     [\<lparr>name = Some ''core'', skip = False\<rparr>, \<lparr>name = None, skip = False\<rparr>] =
     [\<lparr>name = Some ''core'', skip = False\<rparr>]"
  using filter_exclusive_group_name
          [of "[''libs'']"
              "[\<lparr>name = Some ''web'', skip = False\<rparr>, \<lparr>name = Some ''libs'', skip = False\<rparr>]"
              "[]"]
        filter_exclusive_group_name
          [of "[''apps'']" "[]" "[\<lparr>name = Some ''apps'', skip = False\<rparr>]"]
        filter_exclusive_group_name
          [of "[''libs'', ''web'']"
              "[\<lparr>name = Some ''web'', skip = False\<rparr>, \<lparr>name = Some ''admin'', skip = False\<rparr>]"
              "[]"]
        filter_exclusive_group_name
          [of "[''apps'', ''core'']" "[]"
              "[\<lparr>name = Some ''core'', skip = False\<rparr>, \<lparr>name = None, skip = False\<rparr>]"]
  by (simp add: filteredAppConfigs_def filteredLibConfigs_def name_requested_def)

text \<open>
  C6. \<open>getWebpackConfig\<close> never returns the empty list. Whenever the preparation
  succeeds and the two loops leave \<open>webpackConfigs\<close> empty (every project was filtered
  out, skipped, or built to \<open>null\<close>), it throws \<open>InvalidConfigError\<close>; and so it
  does when the configuration file is read and validated and declares no project.
\<close>

theorem getWebpackConfig_never_empty:
  "getWebpackConfig h configPath env_arg argv_arg \<noteq> Inr [] \<and>
   (prepare h configPath env_arg argv_arg = Inr p \<and> collect h p = Inr [] \<longrightarrow>
      getWebpackConfig h configPath env_arg argv_arg =
        Inl (InvalidConfigError ''No app or lib project is available.'')) \<and>
   (configPath \<noteq> [] \<and>
    prepare_environment h
      (case argv_arg of None \<Rightarrow> False | Some a \<Rightarrow> fromAngularBuildCli a) env_arg = Inr e0 \<and>
    json_extension configPath \<and> existsSync h configPath \<and>
    readJsonSync h configPath = Inr c0 \<and> existsSchemaPath h \<and> validateSchema h c0 = [] \<and>
    (libs (applyAngularBuildConfigDefaults h c0) = None \<or>
     libs (applyAngularBuildConfigDefaults h c0) = Some []) \<and>
    (apps (applyAngularBuildConfigDefaults h c0) = None \<or>
     apps (applyAngularBuildConfigDefaults h c0) = Some []) \<longrightarrow>
      getWebpackConfig h configPath env_arg argv_arg =
        Inl (InvalidConfigError ''No app or lib project is available.''))"
proof (intro conjI impI)
  show "getWebpackConfig h configPath env_arg argv_arg \<noteq> Inr []"
    by (auto simp: getWebpackConfig_def split: sum.splits)
next
  assume "prepare h configPath env_arg argv_arg = Inr p \<and> collect h p = Inr []"
  then show "getWebpackConfig h configPath env_arg argv_arg =
        Inl (InvalidConfigError ''No app or lib project is available.'')"
    by (simp add: getWebpackConfig_def)
next
  assume a: "configPath \<noteq> [] \<and>
    prepare_environment h
      (case argv_arg of None \<Rightarrow> False | Some a \<Rightarrow> fromAngularBuildCli a) env_arg = Inr e0 \<and>
    json_extension configPath \<and> existsSync h configPath \<and>
    readJsonSync h configPath = Inr c0 \<and> existsSchemaPath h \<and> validateSchema h c0 = [] \<and>
    (libs (applyAngularBuildConfigDefaults h c0) = None \<or>
     libs (applyAngularBuildConfigDefaults h c0) = Some []) \<and>
    (apps (applyAngularBuildConfigDefaults h c0) = None \<or>
     apps (applyAngularBuildConfigDefaults h c0) = Some [])"
  then have "prepare h configPath env_arg argv_arg =
      Inl (InvalidConfigError ''No app or lib project is available.'')"
    by (auto simp: prepare_def Let_def)
  then show "getWebpackConfig h configPath env_arg argv_arg =
        Inl (InvalidConfigError ''No app or lib project is available.'')"
    by (simp add: getWebpackConfig_def)
qed


lemma sample_prepare:
  "prepare sample_collaborators ''/proj/angular-build.json'' Env_falsy
     (Some \<lparr>fromAngularBuildCli = True, argv_filter = Some (Filter_string ''libs'')\<rparr>) =
   Inr \<lparr>prepared_projectRoot = ''/proj'', prepared_fromCli = True,
        prepared_filterNames = [''libs''],
        prepared_environment = \<lparr>dll = False, test = False, env_options = None\<rparr>,
        prepared_libConfigs = [\<lparr>name = Some ''core'', skip = True\<rparr>],
        prepared_appConfigs = [\<lparr>name = Some ''web'', skip = False\<rparr>]\<rparr>"
  by (simp add: prepare_def sample_collaborators_def prepare_environment_def
      json_extension_def existsSchemaPath_def prepareFilterNames_def trim_def
      is_whitespace_def Let_def)

lemma sample_collect:
  "collect sample_collaborators
     \<lparr>prepared_projectRoot = ''/proj'', prepared_fromCli = True,
      prepared_filterNames = [''libs''],
      prepared_environment = \<lparr>dll = False, test = False, env_options = None\<rparr>,
      prepared_libConfigs = [\<lparr>name = Some ''core'', skip = True\<rparr>],
      prepared_appConfigs = [\<lparr>name = Some ''web'', skip = False\<rparr>]\<rparr> = Inr []"
  by (simp add: collect_def sample_collaborators_def filteredLibConfigs_def
      filteredAppConfigs_def name_requested_def Let_def)

lemma sample_without_projects:
  "prepare_environment sample_collaborators_without_projects False Env_falsy =
     Inr \<lparr>dll = False, test = False, env_options = None\<rparr>"
  "json_extension ''/proj/angular-build.json''"
  "existsSync sample_collaborators_without_projects ''/proj/angular-build.json''"
  "readJsonSync sample_collaborators_without_projects ''/proj/angular-build.json'' =
     Inr \<lparr>libs = None, apps = Some []\<rparr>"
  "existsSchemaPath sample_collaborators_without_projects"
  "validateSchema sample_collaborators_without_projects \<lparr>libs = None, apps = Some []\<rparr> = []"
  "applyAngularBuildConfigDefaults sample_collaborators_without_projects
     \<lparr>libs = None, apps = Some []\<rparr> = \<lparr>libs = None, apps = Some []\<rparr>"
  by (simp_all add: sample_collaborators_without_projects_def sample_collaborators_def
      prepare_environment_def json_extension_def existsSchemaPath_def Let_def)

text \<open>
  C6 at the sample workspace with the filter \<open>libs\<close>: the only library is skipped and
  the app is filtered out, so nothing is collected and the configuration error is
  thrown; and at the workspace whose configuration declares no project.
\<close>

theorem getWebpackConfig_never_empty_witness:
  "prepare sample_collaborators ''/proj/angular-build.json'' Env_falsy
     (Some \<lparr>fromAngularBuildCli = True, argv_filter = Some (Filter_string ''libs'')\<rparr>) =
     Inr \<lparr>prepared_projectRoot = ''/proj'', prepared_fromCli = True,
          prepared_filterNames = [''libs''],
          prepared_environment = \<lparr>dll = False, test = False, env_options = None\<rparr>,
          prepared_libConfigs = [\<lparr>name = Some ''core'', skip = True\<rparr>],
          prepared_appConfigs = [\<lparr>name = Some ''web'', skip = False\<rparr>]\<rparr> \<and>
   collect sample_collaborators
     \<lparr>prepared_projectRoot = ''/proj'', prepared_fromCli = True,
      prepared_filterNames = [''libs''],
      prepared_environment = \<lparr>dll = False, test = False, env_options = None\<rparr>,
      prepared_libConfigs = [\<lparr>name = Some ''core'', skip = True\<rparr>],
      prepared_appConfigs = [\<lparr>name = Some ''web'', skip = False\<rparr>]\<rparr> = Inr [] \<and>
   getWebpackConfig sample_collaborators ''/proj/angular-build.json'' Env_falsy
     (Some \<lparr>fromAngularBuildCli = True, argv_filter = Some (Filter_string ''libs'')\<rparr>) =
     Inl (InvalidConfigError ''No app or lib project is available.'') \<and>
   readJsonSync sample_collaborators_without_projects ''/proj/angular-build.json'' =
     Inr \<lparr>libs = None, apps = Some []\<rparr> \<and>
   getWebpackConfig sample_collaborators_without_projects ''/proj/angular-build.json''
     Env_falsy None =
     Inl (InvalidConfigError ''No app or lib project is available.'')"
  using getWebpackConfig_never_empty
          [of sample_collaborators "''/proj/angular-build.json''" Env_falsy
              "Some \<lparr>fromAngularBuildCli = True, argv_filter = Some (Filter_string ''libs'')\<rparr>"
              "\<lparr>prepared_projectRoot = ''/proj'', prepared_fromCli = True,
                prepared_filterNames = [''libs''],
                prepared_environment = \<lparr>dll = False, test = False, env_options = None\<rparr>,
                prepared_libConfigs = [\<lparr>name = Some ''core'', skip = True\<rparr>],
                prepared_appConfigs = [\<lparr>name = Some ''web'', skip = False\<rparr>]\<rparr>"
              "\<lparr>dll = False, test = False, env_options = None\<rparr>"
              "\<lparr>libs = None, apps = Some []\<rparr>"]
        getWebpackConfig_never_empty
          [of sample_collaborators_without_projects "''/proj/angular-build.json''" Env_falsy
              None
              "\<lparr>prepared_projectRoot = ''/proj'', prepared_fromCli = True,
                prepared_filterNames = [''libs''],
                prepared_environment = \<lparr>dll = False, test = False, env_options = None\<rparr>,
                prepared_libConfigs = [], prepared_appConfigs = []\<rparr>"
              "\<lparr>dll = False, test = False, env_options = None\<rparr>"
              "\<lparr>libs = None, apps = Some []\<rparr>"]
        sample_prepare sample_collect
  by (simp add: sample_without_projects)

section \<open>Properties of the vendor-bundle configuration\<close>

lemma push_if_absent_distinct: "distinct xs \<Longrightarrow> distinct (push_if_absent xs x)"
  by (simp add: push_if_absent_def)

lemma push_if_absent_set: "set (push_if_absent xs x) = insert x (set xs)"
  by (auto simp: push_if_absent_def)











lemma sample_partial:
  "getAppDllWebpackConfigPartial sample_dll_collaborators sample_context =
     Inr (dll_fragment sample_dll_collaborators sample_context
            [''a.ts''] [''a.ts'', ''b.js'', ''c.css''])"
  by (simp add: getAppDllWebpackConfigPartial_def sample_context_def truthy_def
      collect_dll_entries_def push_if_absent_def Let_def)


text \<open>
  C7. Whenever the merge of the four fragments is reached and its result has no entry
  (absent, or an object without keys), \<open>getAppDllWebpackConfig\<close> returns the merged
  configuration with the entry replaced by the function that returns the empty entry
  object.
\<close>

theorem merged_config_without_entry_gets_empty_entry_function:
  assumes "isDll (projectConfig ctx)"
    and "projectType_internal (projectConfig ctx) = Some ''app''"
    and "dll_mergedConfig h ctx = Inr mergedConfig"
    and "entry mergedConfig = Entry_undefined \<or> entry mergedConfig = Entry_object []"
  shows "getAppDllWebpackConfig h ctx = Inr (mergedConfig\<lparr>entry := Entry_function []\<rparr>)"
  using assms by (auto simp: getAppDllWebpackConfig_def)

lemma sample_merge:
  assumes "resolve_extensions f \<noteq> None" "output_publicPath f \<noteq> None"
    "output_library f \<noteq> None"
  shows "webpackMerge sample_dll_collaborators
           [empty_configuration, empty_configuration, f,
            empty_configuration\<lparr>entry := Entry_object []\<rparr>] =
         f\<lparr>entry := Entry_object []\<rparr>"
  using assms by (cases f) (simp add: sample_dll_collaborators_def empty_configuration_def)

lemma sample_merged:
  "dll_mergedConfig sample_dll_collaborators sample_context =
     Inr ((dll_fragment sample_dll_collaborators sample_context
            [''a.ts''] [''a.ts'', ''b.js'', ''c.css''])\<lparr>entry := Entry_object []\<rparr>)"
proof -
  have custom: "truthy (webpackConfig (projectConfig sample_context))"
    by (simp add: sample_context_def truthy_def)
  have c1: "getCustomWebpackConfig sample_dll_collaborators p c =
      Inr (Some (empty_configuration\<lparr>entry := Entry_object []\<rparr>))" for p c
    by (simp add: sample_dll_collaborators_def)
  have c2: "getAppCommonWebpackConfigPartial sample_dll_collaborators c =
      Inr empty_configuration" for c
    by (simp add: sample_dll_collaborators_def)
  have c3: "getAppStylesWebpackConfigPartial sample_dll_collaborators c =
      Inr empty_configuration" for c
    by (simp add: sample_dll_collaborators_def)
  have c4: "resolve_extensions (dll_fragment h c ts es) \<noteq> None"
    "output_publicPath (dll_fragment h c ts es) \<noteq> None"
    "output_library (dll_fragment h c ts es) \<noteq> None" for h c ts es
    by (simp_all add: dll_fragment_def Let_def)
  show ?thesis
    unfolding dll_mergedConfig_def Let_def
    using custom by (simp add: c1 c2 c3 sample_partial sample_merge c4)
qed

text \<open>
  C7 at the sample project, whose custom fragment sets \<open>entry: {}\<close> and whose merge
  lets it replace the vendor entry: the merged entry is the empty object, and the
  result carries the empty-entry function.
\<close>

theorem merged_config_without_entry_witness:
  "isDll (projectConfig sample_context) \<and>
   projectType_internal (projectConfig sample_context) = Some ''app'' \<and>
   dll_mergedConfig sample_dll_collaborators sample_context =
     Inr ((dll_fragment sample_dll_collaborators sample_context
            [''a.ts''] [''a.ts'', ''b.js'', ''c.css''])\<lparr>entry := Entry_object []\<rparr>) \<and>
   entry ((dll_fragment sample_dll_collaborators sample_context
            [''a.ts''] [''a.ts'', ''b.js'', ''c.css''])\<lparr>entry := Entry_object []\<rparr>) =
     Entry_object [] \<and>
   getAppDllWebpackConfig sample_dll_collaborators sample_context =
     Inr ((dll_fragment sample_dll_collaborators sample_context
            [''a.ts''] [''a.ts'', ''b.js'', ''c.css''])\<lparr>entry := Entry_function []\<rparr>)"
proof -
  have a: "isDll (projectConfig sample_context)"
    and b: "projectType_internal (projectConfig sample_context) = Some ''app''"
    by (simp_all add: sample_context_def)
  have c: "entry ((dll_fragment sample_dll_collaborators sample_context
            [''a.ts''] [''a.ts'', ''b.js'', ''c.css''])\<lparr>entry := Entry_object []\<rparr>) =
     Entry_undefined \<or>
     entry ((dll_fragment sample_dll_collaborators sample_context
            [''a.ts''] [''a.ts'', ''b.js'', ''c.css''])\<lparr>entry := Entry_object []\<rparr>) =
     Entry_object []"
    by simp
  show ?thesis
    using a b sample_merged
      merged_config_without_entry_gets_empty_entry_function [OF a b sample_merged c]
    by simp
qed

section \<open>Properties of the styles fragment\<close>

lemma push_or_create_keys:
  "map fst (push_or_create entryPoints k p) = push_if_absent (map fst entryPoints) k"
  by (induction entryPoints k p rule: push_or_create.induct)
     (auto simp: push_if_absent_def)

lemma push_or_create_map_of:
  "map_of (push_or_create entryPoints k p) k' =
     (if k' = k
      then Some ((case map_of entryPoints k of None \<Rightarrow> [] | Some paths \<Rightarrow> paths) @ [p])
      else map_of entryPoints k')"
  by (induction entryPoints k p rule: push_or_create.induct) auto

lemma add_style_entry_returns:
  "style_entry style \<notin> set Object_prototype_members \<Longrightarrow>
   add_style_entry entryPoints style =
     Inr (push_or_create entryPoints (style_entry style) (style_path style))"
  by (simp add: add_style_entry_def)

lemma add_style_entry_throws:
  "style_entry style \<in> set Object_prototype_members \<Longrightarrow>
   style_entry style \<notin> fst ` set entryPoints \<Longrightarrow>
   add_style_entry entryPoints style = Inl TypeError"
  by (simp add: add_style_entry_def)

lemma add_style_entries_return:
  "\<forall>style \<in> set parsed. style_entry style \<notin> set Object_prototype_members \<Longrightarrow>
   add_style_entries parsed entryPoints =
     Inr (fold (\<lambda>style eps. push_or_create eps (style_entry style) (style_path style))
            parsed entryPoints)"
  by (induction parsed arbitrary: entryPoints) (simp_all add: add_style_entry_returns)

lemma add_style_entries_throw:
  "\<exists>style \<in> set parsed. style_entry style \<in> set Object_prototype_members \<Longrightarrow>
   fst ` set entryPoints \<inter> set Object_prototype_members = {} \<Longrightarrow>
   add_style_entries parsed entryPoints = Inl TypeError"
proof (induction parsed arbitrary: entryPoints)
  case Nil
  then show ?case by simp
next
  case (Cons style parsed)
  show ?case
  proof (cases "style_entry style \<in> set Object_prototype_members")
    case True
    with Cons.prems(2) have "style_entry style \<notin> fst ` set entryPoints" by blast
    with True show ?thesis by (simp add: add_style_entry_throws)
  next
    case False
    with Cons.prems(1) have
      later: "\<exists>style \<in> set parsed. style_entry style \<in> set Object_prototype_members"
      by auto
    have "fst ` set (push_or_create entryPoints (style_entry style) (style_path style)) =
        insert (style_entry style) (fst ` set entryPoints)"
      using push_or_create_keys [of entryPoints "style_entry style" "style_path style"]
        push_if_absent_set [of "map fst entryPoints" "style_entry style"]
      by (metis list.set_map)
    with False Cons.prems(2) have
      "fst ` set (push_or_create entryPoints (style_entry style) (style_path style)) \<inter>
         set Object_prototype_members = {}"
      by auto
    from Cons.IH [OF later this] False show ?thesis
      by (simp add: add_style_entry_returns)
  qed
qed

lemma fold_push_or_create_keys:
  "map fst (fold (\<lambda>style eps. push_or_create eps (style_entry style) (style_path style))
              parsed entryPoints) =
   fold (\<lambda>style ks. push_if_absent ks (style_entry style)) parsed (map fst entryPoints)"
  by (induction parsed arbitrary: entryPoints) (simp_all add: push_or_create_keys)

lemma fold_push_keys_distinct:
  "distinct ks \<Longrightarrow> distinct (fold (\<lambda>style ks. push_if_absent ks (f style)) parsed ks)"
  by (induction parsed arbitrary: ks) (simp_all add: push_if_absent_distinct)

lemma fold_push_keys_set:
  "set (fold (\<lambda>style ks. push_if_absent ks (f style)) parsed ks) = set ks \<union> f ` set parsed"
  by (induction parsed arbitrary: ks) (auto simp: push_if_absent_set)

lemma fold_push_or_create_map_of:
  "map_of (fold (\<lambda>style eps. push_or_create eps (style_entry style) (style_path style))
             parsed entryPoints) k =
   (if filter (\<lambda>style. style_entry style = k) parsed = [] then map_of entryPoints k
    else Some ((case map_of entryPoints k of None \<Rightarrow> [] | Some paths \<Rightarrow> paths) @
               map style_path (filter (\<lambda>style. style_entry style = k) parsed)))"
proof (induction parsed arbitrary: entryPoints)
  case Nil
  then show ?case by simp
next
  case (Cons style parsed)
  show ?case
    by (simp add: Cons.IH push_or_create_map_of)
qed

lemma filter_empty_image:
  "(filter (\<lambda>style. f style = k) parsed = []) = (k \<notin> f ` set parsed)"
  by (auto simp: filter_empty_conv)

lemma Object_keys_set: "set (Object_keys properties) = fst ` set properties"
  by (auto simp: Object_keys_def)

text \<open>Outside the main web build the builder returns a fragment without entry points
  and without plugins.\<close>

lemma styles_outside_main_build:
  assumes "\<not> (projectType (options_projectConfig opts) = Some ''app'' \<and>
              platformTarget (options_projectConfig opts) = Some ''web'' \<and>
              \<not> dll (styles_environment opts) \<and> \<not> test (styles_environment opts))"
  shows "\<exists>r. getStylesConfigPartial h opts = Inr r \<and> styles_entry r = [] \<and>
             styles_plugins r = []"
  using assms by (auto simp: getStylesConfigPartial_def Let_def)

text \<open>In the main web build the builder returns what the entry loop returns.\<close>

lemma styles_in_main_build:
  assumes "projectType (options_projectConfig opts) = Some ''app''"
    "platformTarget (options_projectConfig opts) = Some ''web''"
    "\<not> dll (styles_environment opts)" "\<not> test (styles_environment opts)"
  shows "add_style_entries (globalStyleParsedEntries h opts) [] = Inl e \<Longrightarrow>
           getStylesConfigPartial h opts = Inl e"
    and "add_style_entries (globalStyleParsedEntries h opts) [] = Inr entryPoints \<Longrightarrow>
           \<exists>r. getStylesConfigPartial h opts = Inr r \<and> styles_entry r = entryPoints \<and>
               styles_plugins r =
                 (if extractCss (options_projectConfig opts)
                  then [ExtractTextPlugin
                          (''[name]'' @
                           (if appendOutputHash (options_projectConfig opts)
                            then ''.[contenthash:20]'' else []) @ ''.css''),
                        SuppressEntryChunksWebpackPlugin (Object_keys entryPoints)]
                  else [])"
proof -
  assume "add_style_entries (globalStyleParsedEntries h opts) [] = Inl e"
  with assms show "getStylesConfigPartial h opts = Inl e"
    by (cases "globalStyleParsedEntries h opts")
       (simp_all add: getStylesConfigPartial_def Let_def)
next
  assume "add_style_entries (globalStyleParsedEntries h opts) [] = Inr entryPoints"
  with assms show "\<exists>r. getStylesConfigPartial h opts = Inr r \<and> styles_entry r = entryPoints \<and>
               styles_plugins r =
                 (if extractCss (options_projectConfig opts)
                  then [ExtractTextPlugin
                          (''[name]'' @
                           (if appendOutputHash (options_projectConfig opts)
                            then ''.[contenthash:20]'' else []) @ ''.css''),
                        SuppressEntryChunksWebpackPlugin (Object_keys entryPoints)]
                  else [])"
    by (cases "globalStyleParsedEntries h opts")
       (auto simp: getStylesConfigPartial_def Let_def)
qed

text \<open>
  C8. The styles fragment has entry points or plugins only when the project type is
  \<open>app\<close>, the platform target is \<open>web\<close> and neither the dll nor the test flag of the
  environment is set; in a dll or test pass the builder returns a fragment without
  entry points and without plugins. In the main web build, when a parsed global style
  names its chunk after a member of \<open>Object.prototype\<close>, the builder throws a
  \<open>TypeError\<close> and returns no fragment. Otherwise it returns a fragment whose entry has
  one chunk for each chunk name of the parsed global styles, in the order of their first
  use, each holding exactly the paths of the styles of that chunk, in their order; with
  \<open>extractCss\<close> its plugins are the extracting plugin and the plugin that suppresses
  the script artifacts of exactly these chunks, and without it there is no plugin.
\<close>

theorem styles_split_only_in_main_web_build:
  "(\<forall>r. getStylesConfigPartial h opts = Inr r \<and>
        (styles_entry r \<noteq> [] \<or> styles_plugins r \<noteq> []) \<longrightarrow>
      projectType (options_projectConfig opts) = Some ''app'' \<and>
      platformTarget (options_projectConfig opts) = Some ''web'' \<and>
      \<not> dll (styles_environment opts) \<and> \<not> test (styles_environment opts)) \<and>
   (dll (styles_environment opts) \<or> test (styles_environment opts) \<longrightarrow>
      (\<exists>r. getStylesConfigPartial h opts = Inr r \<and> styles_entry r = [] \<and>
           styles_plugins r = [])) \<and>
   (projectType (options_projectConfig opts) = Some ''app'' \<and>
    platformTarget (options_projectConfig opts) = Some ''web'' \<and>
    \<not> dll (styles_environment opts) \<and> \<not> test (styles_environment opts) \<and>
    (\<exists>style \<in> set (globalStyleParsedEntries h opts).
        style_entry style \<in> set Object_prototype_members) \<longrightarrow>
      getStylesConfigPartial h opts = Inl TypeError) \<and>
   (projectType (options_projectConfig opts) = Some ''app'' \<and>
    platformTarget (options_projectConfig opts) = Some ''web'' \<and>
    \<not> dll (styles_environment opts) \<and> \<not> test (styles_environment opts) \<and>
    (\<forall>style \<in> set (globalStyleParsedEntries h opts).
        style_entry style \<notin> set Object_prototype_members) \<longrightarrow>
      (\<exists>r. getStylesConfigPartial h opts = Inr r \<and>
           map fst (styles_entry r) =
             fold (\<lambda>style ks. push_if_absent ks (style_entry style))
               (globalStyleParsedEntries h opts) [] \<and>
           distinct (map fst (styles_entry r)) \<and>
           fst ` set (styles_entry r) = style_entry ` set (globalStyleParsedEntries h opts) \<and>
           (\<forall>k. map_of (styles_entry r) k =
                  (if k \<in> style_entry ` set (globalStyleParsedEntries h opts)
                   then Some (map style_path
                                (filter (\<lambda>style. style_entry style = k)
                                   (globalStyleParsedEntries h opts)))
                   else None)) \<and>
           styles_plugins r =
             (if extractCss (options_projectConfig opts)
              then [ExtractTextPlugin
                      (''[name]'' @
                       (if appendOutputHash (options_projectConfig opts)
                        then ''.[contenthash:20]'' else []) @ ''.css''),
                    SuppressEntryChunksWebpackPlugin (Object_keys (styles_entry r))]
              else []) \<and>
           set (Object_keys (styles_entry r)) =
             style_entry ` set (globalStyleParsedEntries h opts)))"
proof (intro conjI allI impI)
  fix r
  assume a: "getStylesConfigPartial h opts = Inr r \<and>
        (styles_entry r \<noteq> [] \<or> styles_plugins r \<noteq> [])"
  have main: "projectType (options_projectConfig opts) = Some ''app'' \<and>
      platformTarget (options_projectConfig opts) = Some ''web'' \<and>
      \<not> dll (styles_environment opts) \<and> \<not> test (styles_environment opts)"
  proof (rule ccontr)
    assume "\<not> ?thesis"
    from styles_outside_main_build [OF this, of h] a show False by auto
  qed
  from main show "projectType (options_projectConfig opts) = Some ''app''" by blast
  from main show "platformTarget (options_projectConfig opts) = Some ''web''" by blast
  from main show "\<not> dll (styles_environment opts)" by blast
  from main show "\<not> test (styles_environment opts)" by blast
next
  assume "dll (styles_environment opts) \<or> test (styles_environment opts)"
  then show "\<exists>r. getStylesConfigPartial h opts = Inr r \<and> styles_entry r = [] \<and>
           styles_plugins r = []"
    using styles_outside_main_build [of opts h] by blast
next
  assume m: "projectType (options_projectConfig opts) = Some ''app'' \<and>
    platformTarget (options_projectConfig opts) = Some ''web'' \<and>
    \<not> dll (styles_environment opts) \<and> \<not> test (styles_environment opts) \<and>
    (\<exists>style \<in> set (globalStyleParsedEntries h opts).
        style_entry style \<in> set Object_prototype_members)"
  then have "add_style_entries (globalStyleParsedEntries h opts) [] = Inl TypeError"
    by (simp add: add_style_entries_throw)
  with m show "getStylesConfigPartial h opts = Inl TypeError"
    using styles_in_main_build(1) [of opts h TypeError] by blast
next
  assume m: "projectType (options_projectConfig opts) = Some ''app'' \<and>
    platformTarget (options_projectConfig opts) = Some ''web'' \<and>
    \<not> dll (styles_environment opts) \<and> \<not> test (styles_environment opts) \<and>
    (\<forall>style \<in> set (globalStyleParsedEntries h opts).
        style_entry style \<notin> set Object_prototype_members)"
  let ?parsed = "globalStyleParsedEntries h opts"
  let ?eps = "fold (\<lambda>style eps. push_or_create eps (style_entry style) (style_path style))
                ?parsed []"
  from m have loop: "add_style_entries ?parsed [] = Inr ?eps"
    by (simp add: add_style_entries_return)
  with m styles_in_main_build(2) [of opts h ?eps] obtain r where
    r: "getStylesConfigPartial h opts = Inr r" and e: "styles_entry r = ?eps" and
    p: "styles_plugins r =
          (if extractCss (options_projectConfig opts)
           then [ExtractTextPlugin
                   (''[name]'' @
                    (if appendOutputHash (options_projectConfig opts)
                     then ''.[contenthash:20]'' else []) @ ''.css''),
                 SuppressEntryChunksWebpackPlugin (Object_keys ?eps)]
           else [])"
    by blast
  have keys: "map fst ?eps =
      fold (\<lambda>style ks. push_if_absent ks (style_entry style)) ?parsed []"
    by (simp add: fold_push_or_create_keys)
  have dist: "distinct (map fst ?eps)"
    by (simp add: keys fold_push_keys_distinct)
  have keyset: "fst ` set ?eps = style_entry ` set ?parsed"
    using fold_push_keys_set [of style_entry ?parsed "[]"] keys
    by (metis list.set_map empty_set sup_bot.left_neutral)
  have arrays: "\<forall>k. map_of ?eps k =
      (if k \<in> style_entry ` set ?parsed
       then Some (map style_path (filter (\<lambda>style. style_entry style = k) ?parsed))
       else None)"
    by (simp add: fold_push_or_create_map_of filter_empty_image)
  have chunks: "set (Object_keys ?eps) = style_entry ` set ?parsed"
    by (simp add: Object_keys_set keyset)
  show "\<exists>r. getStylesConfigPartial h opts = Inr r \<and>
           map fst (styles_entry r) =
             fold (\<lambda>style ks. push_if_absent ks (style_entry style)) ?parsed [] \<and>
           distinct (map fst (styles_entry r)) \<and>
           fst ` set (styles_entry r) = style_entry ` set ?parsed \<and>
           (\<forall>k. map_of (styles_entry r) k =
                  (if k \<in> style_entry ` set ?parsed
                   then Some (map style_path
                                (filter (\<lambda>style. style_entry style = k) ?parsed))
                   else None)) \<and>
           styles_plugins r =
             (if extractCss (options_projectConfig opts)
              then [ExtractTextPlugin
                      (''[name]'' @
                       (if appendOutputHash (options_projectConfig opts)
                        then ''.[contenthash:20]'' else []) @ ''.css''),
                    SuppressEntryChunksWebpackPlugin (Object_keys (styles_entry r))]
              else []) \<and>
           set (Object_keys (styles_entry r)) = style_entry ` set ?parsed"
    using r e p keys dist keyset arrays chunks by (intro exI [of _ r]) simp
qed

lemma sample_styles_flags:
  "projectType (options_projectConfig (sample_styles_options b)) = Some ''app''"
  "platformTarget (options_projectConfig (sample_styles_options b)) = Some ''web''"
  "extractCss (options_projectConfig (sample_styles_options b))"
  "appendOutputHash (options_projectConfig (sample_styles_options b)) = False"
  "dll (styles_environment (sample_styles_options b)) = b"
  "test (styles_environment (sample_styles_options b)) = False"
  by (simp_all add: sample_styles_options_def styles_environment_def)

lemma sample_styles_by_file_flags:
  "projectType (options_projectConfig (sample_styles_options_by_file f)) = Some ''app''"
  "platformTarget (options_projectConfig (sample_styles_options_by_file f)) = Some ''web''"
  "extractCss (options_projectConfig (sample_styles_options_by_file f))"
  "appendOutputHash (options_projectConfig (sample_styles_options_by_file f)) = False"
  "dll (styles_environment (sample_styles_options_by_file f)) = False"
  "test (styles_environment (sample_styles_options_by_file f)) = False"
  by (simp_all add: sample_styles_options_by_file_def styles_environment_def)

lemma sample_styles_parsed:
  "globalStyleParsedEntries sample_styles_collaborators (sample_styles_options b) =
     [\<lparr>style_path = ''/proj/src/a.css'', style_entry = ''styles''\<rparr>,
      \<lparr>style_path = ''/proj/src/b.scss'', style_entry = ''styles''\<rparr>]"
  by (simp add: sample_styles_collaborators_def sample_styles_options_def
      globalStyleParsedEntries_def styles_srcDir_def truthy_def or_default_def Let_def)

lemma sample_styles_by_file_parsed:
  "globalStyleParsedEntries sample_styles_collaborators_by_file
     (sample_styles_options_by_file ''b.css'') =
     [\<lparr>style_path = ''/proj/src/a.css'', style_entry = ''a''\<rparr>,
      \<lparr>style_path = ''/proj/src/b.css'', style_entry = ''b''\<rparr>,
      \<lparr>style_path = ''/proj/src/a.scss'', style_entry = ''a''\<rparr>]"
  "globalStyleParsedEntries sample_styles_collaborators_by_file
     (sample_styles_options_by_file ''constructor.css'') =
     [\<lparr>style_path = ''/proj/src/a.css'', style_entry = ''a''\<rparr>,
      \<lparr>style_path = ''/proj/src/constructor.css'', style_entry = ''constructor''\<rparr>,
      \<lparr>style_path = ''/proj/src/a.scss'', style_entry = ''a''\<rparr>]"
  by (simp_all add: sample_styles_collaborators_by_file_def sample_styles_options_by_file_def
      globalStyleParsedEntries_def styles_srcDir_def truthy_def or_default_def Let_def)

lemma sample_styles_loops:
  "add_style_entries
     (globalStyleParsedEntries sample_styles_collaborators (sample_styles_options False)) [] =
     Inr [(''styles'', [''/proj/src/a.css'', ''/proj/src/b.scss''])]"
  "add_style_entries
     (globalStyleParsedEntries sample_styles_collaborators_by_file
        (sample_styles_options_by_file ''b.css'')) [] =
     Inr [(''a'', [''/proj/src/a.css'', ''/proj/src/a.scss'']), (''b'', [''/proj/src/b.css''])]"
  "add_style_entries
     (globalStyleParsedEntries sample_styles_collaborators_by_file
        (sample_styles_options_by_file ''constructor.css'')) [] =
     Inl TypeError"
  by (simp_all add: sample_styles_parsed sample_styles_by_file_parsed add_style_entry_def
      Object_prototype_members_def)

lemma sample_Object_keys:
  "Object_keys [(''styles'', [''/proj/src/a.css'', ''/proj/src/b.scss''])] = [''styles'']"
  "Object_keys [(''a'', [''/proj/src/a.css'', ''/proj/src/a.scss'']),
                (''b'', [''/proj/src/b.css''])] = [''a'', ''b'']"
  by (simp_all add: Object_keys_def is_array_index_def)

lemma sample_styles_main:
  "map_sum (\<lambda>e. e) styles_entry
     (getStylesConfigPartial sample_styles_collaborators (sample_styles_options False)) =
     Inr [(''styles'', [''/proj/src/a.css'', ''/proj/src/b.scss''])]"
  "map_sum (\<lambda>e. e) styles_plugins
     (getStylesConfigPartial sample_styles_collaborators (sample_styles_options False)) =
     Inr [ExtractTextPlugin ''[name].css'', SuppressEntryChunksWebpackPlugin [''styles'']]"
  using styles_in_main_build(2)
          [of "sample_styles_options False" sample_styles_collaborators
              "[(''styles'', [''/proj/src/a.css'', ''/proj/src/b.scss''])]"]
  by (auto simp: sample_styles_flags sample_styles_loops sample_Object_keys)

lemma sample_styles_dll:
  "map_sum (\<lambda>e. e) styles_entry
     (getStylesConfigPartial sample_styles_collaborators (sample_styles_options True)) =
     Inr []"
  "map_sum (\<lambda>e. e) styles_plugins
     (getStylesConfigPartial sample_styles_collaborators (sample_styles_options True)) =
     Inr []"
  using styles_outside_main_build [of "sample_styles_options True" sample_styles_collaborators]
  by (auto simp: sample_styles_flags)

lemma sample_styles_by_file:
  "map_sum (\<lambda>e. e) styles_entry
     (getStylesConfigPartial sample_styles_collaborators_by_file
        (sample_styles_options_by_file ''b.css'')) =
     Inr [(''a'', [''/proj/src/a.css'', ''/proj/src/a.scss'']), (''b'', [''/proj/src/b.css''])]"
  "map_sum (\<lambda>e. e) styles_plugins
     (getStylesConfigPartial sample_styles_collaborators_by_file
        (sample_styles_options_by_file ''b.css'')) =
     Inr [ExtractTextPlugin ''[name].css'', SuppressEntryChunksWebpackPlugin [''a'', ''b'']]"
  using styles_in_main_build(2)
          [of "sample_styles_options_by_file ''b.css''" sample_styles_collaborators_by_file
              "[(''a'', [''/proj/src/a.css'', ''/proj/src/a.scss'']),
                (''b'', [''/proj/src/b.css''])]"]
  by (auto simp: sample_styles_by_file_flags sample_styles_loops sample_Object_keys)

lemma sample_styles_constructor:
  "getStylesConfigPartial sample_styles_collaborators_by_file
     (sample_styles_options_by_file ''constructor.css'') = Inl TypeError"
  using styles_in_main_build(1)
          [of "sample_styles_options_by_file ''constructor.css''"
              sample_styles_collaborators_by_file TypeError]
  by (simp add: sample_styles_by_file_flags sample_styles_loops)

text \<open>
  C8 at the sample projects. In the main web build the two global styles form the chunk
  \<open>styles\<close> and its script artifact is suppressed; in the dll pass of the same project
  the fragment has no entry points and no plugins. With chunks named after the files,
  \<open>a.css\<close>, \<open>b.css\<close> and \<open>a.scss\<close> give the chunks \<open>a\<close> (two paths) and \<open>b\<close>, and
  \<open>constructor.css\<close> in place of \<open>b.css\<close> makes the builder throw.
\<close>

theorem styles_split_only_in_main_web_build_witness:
  "projectType (options_projectConfig (sample_styles_options False)) = Some ''app'' \<and>
   platformTarget (options_projectConfig (sample_styles_options False)) = Some ''web'' \<and>
   \<not> dll (styles_environment (sample_styles_options False)) \<and>
   \<not> test (styles_environment (sample_styles_options False)) \<and>
   extractCss (options_projectConfig (sample_styles_options False)) \<and>
   list_all (\<lambda>style. style_entry style \<notin> set Object_prototype_members)
     (globalStyleParsedEntries sample_styles_collaborators (sample_styles_options False)) \<and>
   map_sum (\<lambda>e. e) styles_entry
     (getStylesConfigPartial sample_styles_collaborators (sample_styles_options False)) =
     Inr [(''styles'', [''/proj/src/a.css'', ''/proj/src/b.scss''])] \<and>
   map_sum (\<lambda>e. e) styles_plugins
     (getStylesConfigPartial sample_styles_collaborators (sample_styles_options False)) =
     Inr [ExtractTextPlugin ''[name].css'', SuppressEntryChunksWebpackPlugin [''styles'']] \<and>
   dll (styles_environment (sample_styles_options True)) \<and>
   map_sum (\<lambda>e. e) styles_entry
     (getStylesConfigPartial sample_styles_collaborators (sample_styles_options True)) =
     Inr [] \<and>
   map_sum (\<lambda>e. e) styles_plugins
     (getStylesConfigPartial sample_styles_collaborators (sample_styles_options True)) =
     Inr [] \<and>
   list_all (\<lambda>style. style_entry style \<notin> set Object_prototype_members)
     (globalStyleParsedEntries sample_styles_collaborators_by_file
        (sample_styles_options_by_file ''b.css'')) \<and>
   map_sum (\<lambda>e. e) styles_entry
     (getStylesConfigPartial sample_styles_collaborators_by_file
        (sample_styles_options_by_file ''b.css'')) =
     Inr [(''a'', [''/proj/src/a.css'', ''/proj/src/a.scss'']), (''b'', [''/proj/src/b.css''])] \<and>
   map_sum (\<lambda>e. e) styles_plugins
     (getStylesConfigPartial sample_styles_collaborators_by_file
        (sample_styles_options_by_file ''b.css'')) =
     Inr [ExtractTextPlugin ''[name].css'', SuppressEntryChunksWebpackPlugin [''a'', ''b'']] \<and>
   list_ex (\<lambda>style. style_entry style \<in> set Object_prototype_members)
     (globalStyleParsedEntries sample_styles_collaborators_by_file
        (sample_styles_options_by_file ''constructor.css'')) \<and>
   getStylesConfigPartial sample_styles_collaborators_by_file
     (sample_styles_options_by_file ''constructor.css'') = Inl TypeError"
  using styles_split_only_in_main_web_build
          [of sample_styles_collaborators "sample_styles_options False"]
        styles_split_only_in_main_web_build
          [of sample_styles_collaborators "sample_styles_options True"]
        styles_split_only_in_main_web_build
          [of sample_styles_collaborators_by_file "sample_styles_options_by_file ''b.css''"]
        styles_split_only_in_main_web_build
          [of sample_styles_collaborators_by_file
              "sample_styles_options_by_file ''constructor.css''"]
  by (simp add: sample_styles_flags sample_styles_by_file_flags sample_styles_parsed
      sample_styles_by_file_parsed sample_styles_main sample_styles_dll
      sample_styles_by_file sample_styles_constructor Object_prototype_members_def)

end
